theory Spec2Isabelle
  imports Main
begin

section \<open>JavaScript values\<close>

text \<open>
  The values that flow through the transport (\<^verbatim>\<open>json-api\<close>), the loader component
  (\<^verbatim>\<open>loader-hoc.tsx\<close>) and \<^verbatim>\<open>deepCompare\<close> (\<^verbatim>\<open>helpers\<close>).

  \<^item> A number is \<open>NaN\<close> or \<open>Num n\<close>, an integer \<open>n\<close> of magnitude below \<open>10\<^sup>2\<^sup>1\<close>, which
    \<^verbatim>\<open>String\<close> prints in plain decimal (from there on it uses exponent notation, and
    such numbers are not values of this model); no modelled function does arithmetic.
  \<^item> A string is a list of code units in the range 0..255.
  \<^item> An object is its kind together with the list of its own enumerable properties, in
    enumeration order. An array is an object of kind \<open>ArrayObject n\<close> (\<open>n\<close> its
    \<^verbatim>\<open>length\<close>) whose elements are the properties named \<^verbatim>\<open>"0"\<close>, \<^verbatim>\<open>"1"\<close>, ...; a
    \<^verbatim>\<open>File\<close> or \<^verbatim>\<open>Blob\<close> carries the \<^verbatim>\<open>name\<close>, \<^verbatim>\<open>size\<close> and \<^verbatim>\<open>type\<close> that its
    prototype getters return.
  \<^item> Functions are not values of this type; the callbacks of the source are HOL functions.
  \<^item> Property names are assumed not to shadow members of the built-in prototypes
    (\<^verbatim>\<open>hasOwnProperty\<close>, \<^verbatim>\<open>toString\<close>, ...), and only own properties and the
    getters named above are read.
\<close>

datatype kind =
    PlainObject
  | ArrayObject nat
  | FileObject string int string
  | BlobObject int string

datatype jsval =
    Undefined
  | Null
  | Bool bool
  | Num int
  | NaN
  | Str string
  | Obj kind "(string \<times> jsval) list"

text \<open>What a \<^verbatim>\<open>throw\<close> or a rejection carries: a value, or a \<^verbatim>\<open>TypeError\<close> object.\<close>

datatype reason = Val jsval | TypeError

fun truthy :: "jsval \<Rightarrow> bool" where
  "truthy Undefined = False"
| "truthy Null = False"
| "truthy (Bool b) = b"
| "truthy (Num n) = (n \<noteq> 0)"
| "truthy NaN = False"
| "truthy (Str s) = (s \<noteq> [])"
| "truthy (Obj kd ps) = True"

text \<open>\<^verbatim>\<open>a || b\<close> and \<^verbatim>\<open>a && b\<close>.\<close>

definition js_or :: "jsval \<Rightarrow> jsval \<Rightarrow> jsval" where
  "js_or a b = (if truthy a then a else b)"

definition js_and :: "jsval \<Rightarrow> jsval \<Rightarrow> jsval" where
  "js_and a b = (if truthy a then b else a)"

text \<open>\<^verbatim>\<open>typeof v == 'object'\<close> holds of \<^verbatim>\<open>null\<close> and of every object.\<close>

fun typeof_object :: "jsval \<Rightarrow> bool" where
  "typeof_object Null = True"
| "typeof_object (Obj kd ps) = True"
| "typeof_object v = False"

fun typeof_number :: "jsval \<Rightarrow> bool" where
  "typeof_number (Num n) = True"
| "typeof_number NaN = True"
| "typeof_number v = False"

text \<open>
  \<^verbatim>\<open>a === b\<close> for operands of which at most one is an object: primitives are compared by
  value, \<^verbatim>\<open>NaN\<close> differs from everything, and an object differs from every primitive. (Two
  objects are \<^verbatim>\<open>===\<close> when they are the same object; no modelled function compares two
  objects this way.)
\<close>

fun strict_eq :: "jsval \<Rightarrow> jsval \<Rightarrow> bool" where
  "strict_eq NaN b = False"
| "strict_eq a NaN = False"
| "strict_eq (Obj kd ps) b = False"
| "strict_eq a (Obj kd ps) = False"
| "strict_eq a b = (a = b)"

text \<open>
  Decimal digits of a natural number and of an integer: \<^verbatim>\<open>String(n)\<close> for the integers
  of magnitude below \<open>10\<^sup>2\<^sup>1\<close>.
\<close>

fun show_nat :: "nat \<Rightarrow> string" where
  "show_nat n = (if n < 10 then [char_of (48 + n)] else show_nat (n div 10) @ [char_of (48 + n mod 10)])"

declare show_nat.simps [simp del]

definition show_int :: "int \<Rightarrow> string" where
  "show_int i = (if i < 0 then CHR ''-'' # show_nat (nat (- i)) else show_nat (nat i))"

text \<open>
  Reading a property, \<^verbatim>\<open>v[k]\<close>. An own property wins; otherwise the getters of arrays,
  files, blobs and strings answer; everything else is \<^verbatim>\<open>undefined\<close>. Reading a property
  of \<^verbatim>\<open>undefined\<close> or \<^verbatim>\<open>null\<close> throws a \<^verbatim>\<open>TypeError\<close>.
\<close>

fun builtin_prop :: "kind \<Rightarrow> string \<Rightarrow> jsval" where
  "builtin_prop PlainObject k = Undefined"
| "builtin_prop (ArrayObject n) k = (if k = ''length'' then Num (int n) else Undefined)"
| "builtin_prop (FileObject name sz ty) k =
     (if k = ''name'' then Str name else if k = ''size'' then Num sz
      else if k = ''type'' then Str ty else Undefined)"
| "builtin_prop (BlobObject sz ty) k =
     (if k = ''size'' then Num sz else if k = ''type'' then Str ty else Undefined)"

definition string_prop :: "string \<Rightarrow> string \<Rightarrow> jsval" where
  "string_prop s k =
     (case find (\<lambda>i. show_nat i = k) [0..<length s] of
        Some i \<Rightarrow> Str [s ! i]
      | None \<Rightarrow> if k = ''length'' then Num (int (length s)) else Undefined)"

fun member :: "jsval \<Rightarrow> string \<Rightarrow> jsval" where
  "member (Obj kd ps) k = (case map_of ps k of Some v \<Rightarrow> v | None \<Rightarrow> builtin_prop kd k)"
| "member (Str s) k = string_prop s k"
| "member v k = Undefined"

definition get_prop :: "jsval \<Rightarrow> string \<Rightarrow> reason + jsval" where
  "get_prop v k = (if v = Undefined \<or> v = Null then Inl TypeError else Inr (member v k))"

text \<open>
  Own enumerable properties, as \<^verbatim>\<open>Object.keys\<close>, \<^verbatim>\<open>for .. in\<close> with
  \<^verbatim>\<open>hasOwnProperty\<close>, and object spread see them. A string has its code units.
\<close>

fun own_props :: "jsval \<Rightarrow> (string \<times> jsval) list" where
  "own_props (Obj kd ps) = ps"
| "own_props (Str s) = zip (map show_nat [0..<length s]) (map (\<lambda>c. Str [c]) s)"
| "own_props v = []"

text \<open>
  Assignment \<^verbatim>\<open>v[k] = x\<close> in strict mode (the source files are modules) for a name
  \<open>k\<close> that is neither an array index nor \<^verbatim>\<open>length\<close>: an existing own property is
  overwritten in place, a new one is added last; on \<^verbatim>\<open>undefined\<close>, \<^verbatim>\<open>null\<close> and on a
  primitive the assignment throws a \<^verbatim>\<open>TypeError\<close>.
\<close>

fun put :: "string \<Rightarrow> jsval \<Rightarrow> (string \<times> jsval) list \<Rightarrow> (string \<times> jsval) list" where
  "put k x [] = [(k, x)]"
| "put k x (p # ps) = (if fst p = k then (k, x) # ps else p # put k x ps)"

fun assign_prop :: "jsval \<Rightarrow> string \<Rightarrow> jsval \<Rightarrow> reason + jsval" where
  "assign_prop (Obj kd ps) k x = Inr (Obj kd (put k x ps))"
| "assign_prop v k x = Inl TypeError"

section \<open>Transport: classifying a completed request\<close>

text \<open>
  What the browser reports when a request completes: \<^verbatim>\<open>xhr.status\<close>,
  \<^verbatim>\<open>xhr.responseText\<close> and \<^verbatim>\<open>xhr.getResponseHeader('Location')\<close> (\<open>None\<close> for
  \<^verbatim>\<open>null\<close>).
\<close>

record xhr_response =
  status :: int
  responseText :: string
  locationHeader :: "string option"

text \<open>Which of the two callbacks a handler calls, and with what.\<close>

datatype settle = Success jsval | Fail jsval

text \<open>
  \<^verbatim>\<open>JSON.parse\<close> is the platform's; it is the parameter \<open>parse\<close>, \<open>None\<close> when it throws.

  \<^verbatim>\<open>doSuccess\<close>: the \<^verbatim>\<open>try\<close> block holds the parse and the assignment of
  \<^verbatim>\<open>redirectTo\<close>; if either throws, the raw response is passed on. The result is the
  argument given to \<^verbatim>\<open>callback\<close>.
\<close>

definition doSuccess :: "(string \<Rightarrow> jsval option) \<Rightarrow> string \<Rightarrow> string option \<Rightarrow> jsval" where
  "doSuccess parse response redirectTo =
     (case parse response of
        None \<Rightarrow> Str response
      | Some parsed \<Rightarrow>
          (case redirectTo of
             None \<Rightarrow> parsed
           | Some l \<Rightarrow>
               if truthy (Str l)
               then (case assign_prop parsed ''redirectTo'' (Str l) of
                       Inl e \<Rightarrow> Str response
                     | Inr parsed' \<Rightarrow> parsed')
               else parsed))"

text \<open>
  \<^verbatim>\<open>doError\<close>:
  \<^verbatim>\<open>callback((data.error === '' ? '(no message provided)' : data.error) || data)\<close>
  inside \<^verbatim>\<open>try\<close>, and \<^verbatim>\<open>callback(response || "Server returned ...")\<close> in \<^verbatim>\<open>catch\<close>.
  The callback is the promise's \<^verbatim>\<open>reject\<close>, which does not throw.
\<close>

definition doError :: "(string \<Rightarrow> jsval option) \<Rightarrow> string \<Rightarrow> jsval" where
  "doError parse response =
     (case parse response of
        None \<Rightarrow> js_or (Str response) (Str ''Server returned with an unexpected response'')
      | Some data \<Rightarrow>
          (case get_prop data ''error'' of
             Inl e \<Rightarrow> js_or (Str response) (Str ''Server returned with an unexpected response'')
           | Inr err \<Rightarrow>
               js_or (if strict_eq err (Str '''') then Str ''(no message provided)'' else err) data))"

text \<open>The handlers that \<^verbatim>\<open>send\<close> installs on the request.\<close>

definition xhr_onload :: "(string \<Rightarrow> jsval option) \<Rightarrow> xhr_response \<Rightarrow> settle" where
  "xhr_onload parse r =
     (if 200 \<le> status r \<and> status r < 300
      then (case locationHeader r of
              Some l \<Rightarrow>
                if truthy (Str l) then Success (doSuccess parse (responseText r) (Some l))
                else Success (doSuccess parse (responseText r) None)
            | None \<Rightarrow> Success (doSuccess parse (responseText r) None))
      else Fail (doError parse (responseText r)))"

text \<open>\<^verbatim>\<open>XMLHttpRequest.DONE\<close> is 4.\<close>

definition xhr_onreadystatechange :: "nat \<Rightarrow> xhr_response \<Rightarrow> settle option" where
  "xhr_onreadystatechange readyState r =
     (if readyState = 4 \<and> status r = 0 then Some (Fail (Str ''Could not reach the server''))
      else None)"

section \<open>Transport: building a request\<close>

text \<open>\<^verbatim>\<open>Array.prototype.join\<close> on strings.\<close>

fun join :: "string \<Rightarrow> string list \<Rightarrow> string" where
  "join sep [] = []"
| "join sep [x] = x"
| "join sep (x # y # ys) = x @ sep @ join sep (y # ys)"

text \<open>
  \<^verbatim>\<open>String(v)\<close>, the conversion \<^verbatim>\<open>encodeURIComponent\<close> applies to its argument. An
  array is its elements joined by commas, \<^verbatim>\<open>null\<close> and \<^verbatim>\<open>undefined\<close> elements giving
  the empty string.
\<close>

function to_string :: "jsval \<Rightarrow> string" where
  "to_string Undefined = ''undefined''"
| "to_string Null = ''null''"
| "to_string (Bool b) = (if b then ''true'' else ''false'')"
| "to_string (Num n) = show_int n"
| "to_string NaN = ''NaN''"
| "to_string (Str s) = s"
| "to_string (Obj PlainObject ps) = ''[object Object]''"
| "to_string (Obj (FileObject name sz ty) ps) = ''[object File]''"
| "to_string (Obj (BlobObject sz ty) ps) = ''[object Blob]''"
| "to_string (Obj (ArrayObject n) ps) =
     join '',''
       (map (\<lambda>i. case map_of ps (show_nat i) of
                    None \<Rightarrow> []
                  | Some v \<Rightarrow> if v = Undefined \<or> v = Null then [] else to_string v)
            [0..<n])"
  by pat_completeness auto
termination
proof (relation "measure size")
  show "wf (measure size)" by simp
next
  fix n :: nat and ps :: "(string \<times> jsval) list" and i v
  assume "map_of ps (show_nat i) = Some v"
  then have "(show_nat i, v) \<in> set ps" by (rule map_of_SomeD)
  then have "size v < Suc (size_list (size_prod (\<lambda>_. 0) size) ps)"
    by (induction ps) auto
  then show "(v, Obj (ArrayObject n) ps) \<in> measure size" by simp
qed

text \<open>
  \<^verbatim>\<open>encodeURIComponent\<close>: letters, digits and \<^verbatim>\<open>- _ . ! ~ * ' ( )\<close> stay; every other
  code unit becomes the \<^verbatim>\<open>%XX\<close> escapes of its UTF-8 bytes (one byte below 128, two
  bytes from 128 to 255).
\<close>

definition unreserved :: "char \<Rightarrow> bool" where
  "unreserved c \<longleftrightarrow>
     c \<in> set (''ABCDEFGHIJKLMNOPQRSTUVWXYZabcdefghijklmnopqrstuvwxyz0123456789-_.!~*()'' @ [CHR 0x27])"

definition hex_digit :: "nat \<Rightarrow> char" where
  "hex_digit n = ''0123456789ABCDEF'' ! (n mod 16)"

definition percent :: "nat \<Rightarrow> string" where
  "percent b = [CHR ''%'', hex_digit (b div 16), hex_digit b]"

definition encode_unit :: "char \<Rightarrow> string" where
  "encode_unit c =
     (let n = (of_char c :: nat) in
      if unreserved c then [c]
      else if n < 128 then percent n
      else percent (192 + n div 64) @ percent (128 + n mod 64))"

definition encodeURIComponent :: "jsval \<Rightarrow> string" where
  "encodeURIComponent v = concat (map encode_unit (to_string v))"

text \<open>
  \<^verbatim>\<open>serializeUri\<close>: the loop over the own enumerable keys pushes \<^verbatim>\<open>key=value\<close> for
  every value that is neither \<^verbatim>\<open>undefined\<close> nor \<^verbatim>\<open>null\<close>; the result is the pushed
  strings joined by \<^verbatim>\<open>&\<close>.
\<close>

fun serializeUri_loop :: "string list \<Rightarrow> (string \<times> jsval) list \<Rightarrow> string list" where
  "serializeUri_loop params [] = params"
| "serializeUri_loop params ((key, v) # rest) =
     (if v \<noteq> Undefined \<and> v \<noteq> Null
      then serializeUri_loop (params @ [key @ ''='' @ encodeURIComponent v]) rest
      else serializeUri_loop params rest)"

definition serializeUri :: "jsval \<Rightarrow> string" where
  "serializeUri obj = join ''&'' (serializeUri_loop [] (own_props obj))"

text \<open>
  \<^verbatim>\<open>JSON.stringify\<close> on the values above; \<open>None\<close> is its result \<^verbatim>\<open>undefined\<close>. In an
  array \<^verbatim>\<open>undefined\<close> is written \<^verbatim>\<open>null\<close>, in an object a property with the value
  \<^verbatim>\<open>undefined\<close> is left out; files and blobs have no own enumerable property unless one
  was added.
\<close>

definition json_escape :: "char \<Rightarrow> string" where
  "json_escape c =
     (let n = (of_char c :: nat) in
      if n = 34 then [CHR 0x5C, CHR 0x22]
      else if n = 92 then [CHR 0x5C, CHR 0x5C]
      else if n = 8 then [CHR 0x5C, CHR ''b'']
      else if n = 9 then [CHR 0x5C, CHR ''t'']
      else if n = 10 then [CHR 0x5C, CHR ''n'']
      else if n = 12 then [CHR 0x5C, CHR ''f'']
      else if n = 13 then [CHR 0x5C, CHR ''r'']
      else if n < 32 then [CHR 0x5C, CHR ''u'', CHR ''0'', CHR ''0'',
                           ''0123456789abcdef'' ! (n div 16), ''0123456789abcdef'' ! (n mod 16)]
      else [c])"

definition json_quote :: "string \<Rightarrow> string" where
  "json_quote s = CHR 0x22 # concat (map json_escape s) @ [CHR 0x22]"

function stringify :: "jsval \<Rightarrow> string option"
  and stringify_props :: "(string \<times> jsval) list \<Rightarrow> string list" where
  "stringify Undefined = None"
| "stringify Null = Some ''null''"
| "stringify (Bool b) = Some (if b then ''true'' else ''false'')"
| "stringify (Num n) = Some (show_int n)"
| "stringify NaN = Some ''null''"
| "stringify (Str s) = Some (json_quote s)"
| "stringify (Obj (ArrayObject n) ps) =
     Some (''['' @
           join '',''
             (map (\<lambda>i. case map_of ps (show_nat i) of
                          None \<Rightarrow> ''null''
                        | Some v \<Rightarrow> (case stringify v of None \<Rightarrow> ''null'' | Some t \<Rightarrow> t))
                  [0..<n]) @
           '']'')"
| "stringify (Obj PlainObject ps) = Some (''{'' @ join '','' (stringify_props ps) @ ''}'')"
| "stringify (Obj (FileObject name sz ty) ps) =
     Some (''{'' @ join '','' (stringify_props ps) @ ''}'')"
| "stringify (Obj (BlobObject sz ty) ps) = Some (''{'' @ join '','' (stringify_props ps) @ ''}'')"
| "stringify_props [] = []"
| "stringify_props ((k, v) # ps) =
     (case stringify v of
        None \<Rightarrow> stringify_props ps
      | Some t \<Rightarrow> (json_quote k @ '':'' @ t) # stringify_props ps)"
  by pat_completeness auto
termination
proof (relation "measure (\<lambda>x. case x of Inl v \<Rightarrow> size v
                                     | Inr ps \<Rightarrow> size_list (size_prod (\<lambda>_. 0) size) ps)")
  fix n :: nat and ps :: "(string \<times> jsval) list" and i v
  assume "map_of ps (show_nat i) = Some v"
  then have "(show_nat i, v) \<in> set ps" by (rule map_of_SomeD)
  then have "size v < Suc (size_list (size_prod (\<lambda>_. 0) size) ps)"
    by (induction ps) auto
  then show "(Inl v, Inl (Obj (ArrayObject n) ps)) \<in>
      measure (\<lambda>x. case x of Inl v \<Rightarrow> size v
                           | Inr ps \<Rightarrow> size_list (size_prod (\<lambda>_. 0) size) ps)"
    by simp
qed simp_all

definition JSON_stringify :: "jsval \<Rightarrow> jsval" where
  "JSON_stringify v = (case stringify v of None \<Rightarrow> Undefined | Some t \<Rightarrow> Str t)"

text \<open>
  The request object as \<^verbatim>\<open>send\<close> leaves it: what \<^verbatim>\<open>open\<close>, \<^verbatim>\<open>setRequestHeader\<close>
  and \<^verbatim>\<open>timeout\<close> were given, the installed handlers, and in \<open>body\<close> the argument of
  \<^verbatim>\<open>xhr.send\<close>. \<open>settled\<close> is the first call of \<^verbatim>\<open>success\<close> or \<^verbatim>\<open>fail\<close> that a
  handler of the request has made before the network completed it, if any. The line
  logged when logging is enabled is not part of the record.
\<close>

datatype Method = GET | POST | PATCH | PUT | DELETE | LINK | UNLINK

record XMLHttpRequest =
  http_method :: Method
  url :: string
  async :: bool
  requestHeaders :: "(string \<times> string) list"
  timeout :: nat
  onload :: "(xhr_response \<Rightarrow> settle) option"
  onreadystatechange :: "(nat \<Rightarrow> xhr_response \<Rightarrow> settle option) option"
  body :: jsval
  aborted :: bool
  settled :: "settle option"

definition Mime_json_utf8 :: string where
  "Mime_json_utf8 = ''application/json;charset=utf-8''"

text \<open>
  \<^verbatim>\<open>send\<close>. The parameter \<open>contentType\<close> is \<open>None\<close> when the caller gives none, and the
  default \<^verbatim>\<open>Mime.json.utf8\<close> applies. The callbacks \<^verbatim>\<open>success\<close> and \<^verbatim>\<open>fail\<close> are the
  two constructors of \<open>settle\<close>.
\<close>

definition send ::
  "(string \<Rightarrow> jsval option) \<Rightarrow> Method \<Rightarrow> string \<Rightarrow> jsval \<Rightarrow> string option \<Rightarrow> XMLHttpRequest" where
  "send parse m u data contentType =
     (let ct = (case contentType of None \<Rightarrow> Mime_json_utf8 | Some c \<Rightarrow> c) in
      \<lparr> http_method = m,
        url = u,
        async = True,
        requestHeaders =
          [(''Accept'', Mime_json_utf8)] @ (if ct \<noteq> [] then [(''Content-Type'', ct)] else []),
        timeout = 90 * 1000,
        onload = Some (xhr_onload parse),
        onreadystatechange = Some xhr_onreadystatechange,
        body = js_and data (JSON_stringify data),
        aborted = False,
        settled = None \<rparr>)"

text \<open>
  The functions wrapped into the API object. \<^verbatim>\<open>get\<close> appends the query string when
  \<^verbatim>\<open>data\<close> is truthy and hands \<^verbatim>\<open>{}\<close> to \<^verbatim>\<open>send\<close> as its data; the others pass
  their arguments through.
\<close>

definition api_get :: "(string \<Rightarrow> jsval option) \<Rightarrow> string \<Rightarrow> jsval \<Rightarrow> XMLHttpRequest" where
  "api_get parse u data =
     send parse GET (if truthy data then u @ ''?'' @ serializeUri data else u)
       (Obj PlainObject []) None"

definition api_other ::
  "(string \<Rightarrow> jsval option) \<Rightarrow> Method \<Rightarrow> string \<Rightarrow> jsval \<Rightarrow> XMLHttpRequest" where
  "api_other parse m u data = send parse m u data None"

section \<open>The world the asynchronous code runs in\<close>

text \<open>
  The component state of \<^verbatim>\<open>LoaderHOC\<close> (\<^verbatim>\<open>state: InnerState = {}\<close>: both fields start
  \<^verbatim>\<open>undefined\<close>), the calls received by the caller's hooks, and the calls received by
  the \<^verbatim>\<open>history\<close> object: \<^verbatim>\<open>push\<close> and \<^verbatim>\<open>replace\<close> are given
  \<^verbatim>\<open>{...history.location, pathname: p, state: s}\<close> and
  \<^verbatim>\<open>{...history.location, state: s}\<close>, recorded as the spread location, the path
  and the state.
\<close>

record InnerState =
  data :: jsval
  errorStatus :: reason

datatype hook_call = OnErrorCall reason | OnLoadCall jsval

datatype nav_state = ServerMessage jsval | ErrorMessage reason

datatype nav_call =
    Push "(string \<times> jsval) list" string nav_state
  | Replace "(string \<times> jsval) list" nav_state

text \<open>
  Request objects live in \<open>requests\<close> and are addressed by their index. \<open>responses\<close>
  says how the network completes the request at an address (\<open>None\<close>: it never does).
\<close>

record world =
  requests :: "XMLHttpRequest list"
  responses :: "nat \<Rightarrow> xhr_response option"
  location :: "(string \<times> jsval) list"
  navigation :: "nav_call list"
  state :: InnerState
  calls :: "hook_call list"

section \<open>Promises\<close>

text \<open>
  A promise is described by what it settles to and what its handlers have done to the
  world by then. A handler returns an outcome: \<open>Fulfilled\<close> for a returned value,
  \<open>Rejected\<close> for a \<^verbatim>\<open>throw\<close>, \<open>Pending\<close> for a returned promise that never settles.
\<close>

datatype outcome = Fulfilled jsval | Rejected reason | Pending

type_synonym promise = "world \<Rightarrow> outcome \<times> world"

definition then_p ::
  "(jsval \<Rightarrow> promise) option \<Rightarrow> (reason \<Rightarrow> promise) option \<Rightarrow> promise \<Rightarrow> promise" where
  "then_p onfulfilled onrejected p =
     (\<lambda>w. case p w of
            (Fulfilled v, w') \<Rightarrow>
              (case onfulfilled of Some f \<Rightarrow> f v w' | None \<Rightarrow> (Fulfilled v, w'))
          | (Rejected e, w') \<Rightarrow>
              (case onrejected of Some g \<Rightarrow> g e w' | None \<Rightarrow> (Rejected e, w'))
          | (Pending, w') \<Rightarrow> (Pending, w'))"

section \<open>Cancellable promises\<close>

record CancellablePromise =
  promise :: promise
  cancel :: "world \<Rightarrow> string + world"

text \<open>
  \<^verbatim>\<open>makeCancellablePromise\<close> replaces \<^verbatim>\<open>then\<close> and \<^verbatim>\<open>catch\<close> by functions that call
  the original ones and wrap the result with the same \<^verbatim>\<open>onCancel\<close>, and sets
  \<^verbatim>\<open>cancel\<close>. The native \<^verbatim>\<open>catch\<close> calls \<^verbatim>\<open>this.then(undefined, onrejected)\<close>, which
  is the replaced \<^verbatim>\<open>then\<close>.
\<close>

definition makeCancellablePromise ::
  "promise \<Rightarrow> (world \<Rightarrow> string + world) \<Rightarrow> CancellablePromise" where
  "makeCancellablePromise p onCancel = \<lparr> promise = p, cancel = onCancel \<rparr>"

definition cp_then ::
  "CancellablePromise \<Rightarrow> (jsval \<Rightarrow> promise) option \<Rightarrow> (reason \<Rightarrow> promise) option \<Rightarrow>
   CancellablePromise" where
  "cp_then cp onfulfilled onrejected =
     makeCancellablePromise (then_p onfulfilled onrejected (promise cp)) (cancel cp)"

definition cp_catch :: "CancellablePromise \<Rightarrow> (reason \<Rightarrow> promise) option \<Rightarrow> CancellablePromise" where
  "cp_catch cp onrejected =
     makeCancellablePromise (promise (cp_then cp None onrejected)) (cancel cp)"

text \<open>A chain of compositions applied to a future, first link first.\<close>

datatype link =
    Then "(jsval \<Rightarrow> promise) option" "(reason \<Rightarrow> promise) option"
  | Catch "(reason \<Rightarrow> promise) option"

fun chain :: "CancellablePromise \<Rightarrow> link list \<Rightarrow> CancellablePromise" where
  "chain cp [] = cp"
| "chain cp (Then f g # ls) = chain (cp_then cp f g) ls"
| "chain cp (Catch g # ls) = chain (cp_catch cp g) ls"

text \<open>
  Running a future in the world its call left: what it settles to once the network has
  completed the request, and the world after its handlers.
\<close>

definition run :: "CancellablePromise \<times> world \<Rightarrow> outcome \<times> world" where
  "run Fw = promise (fst Fw) (snd Fw)"

section \<open>Transport: the wrapped API functions\<close>

text \<open>
  \<^verbatim>\<open>xhr.abort()\<close> on a request in flight: the request goes to \<^verbatim>\<open>DONE\<close> with status
  0 and \<^verbatim>\<open>readystatechange\<close> fires, so that the handler installed by \<^verbatim>\<open>send\<close>
  calls \<^verbatim>\<open>fail\<close>; then \<^verbatim>\<open>abort\<close> fires and \<^verbatim>\<open>onabort\<close> clears the two handlers.
\<close>

definition xhr_abort :: "XMLHttpRequest \<Rightarrow> XMLHttpRequest" where
  "xhr_abort x =
     x\<lparr> aborted := True,
        settled :=
          (case settled x of
             Some s \<Rightarrow> Some s
           | None \<Rightarrow>
               (case onreadystatechange x of
                  Some h \<Rightarrow> h 4 \<lparr> status = 0, responseText = [], locationHeader = None \<rparr>
                | None \<Rightarrow> None)),
        onload := None,
        onreadystatechange := None \<rparr>"

text \<open>
  The closure given to \<^verbatim>\<open>makeCancellablePromise\<close> by \<^verbatim>\<open>wrap\<close>; \<open>xhr\<close> is the value
  of the captured variable, \<open>None\<close> while it is unset.
\<close>

definition onCancel :: "nat option \<Rightarrow> world \<Rightarrow> string + world" where
  "onCancel xhr w =
     (case xhr of
        Some a \<Rightarrow>
          Inr (if a < length (requests w)
               then w\<lparr> requests := (requests w)[a := xhr_abort (requests w ! a)] \<rparr>
               else w)
      | None \<Rightarrow> Inl ''XMLHttpRequest cannot be canceled before it is initiated.'')"

text \<open>
  A completed request fires \<^verbatim>\<open>readystatechange\<close> with \<^verbatim>\<open>readyState\<close> \<^verbatim>\<open>DONE\<close> and then
  \<^verbatim>\<open>load\<close>; the promise keeps the first call of \<^verbatim>\<open>success\<close> or \<^verbatim>\<open>fail\<close>.
\<close>

definition dispatch :: "XMLHttpRequest \<Rightarrow> xhr_response \<Rightarrow> settle option" where
  "dispatch x r =
     (case (case onreadystatechange x of Some h \<Rightarrow> h 4 r | None \<Rightarrow> None) of
        Some s \<Rightarrow> Some s
      | None \<Rightarrow> (case onload x of Some h \<Rightarrow> Some (h r) | None \<Rightarrow> None))"

text \<open>
  The promise made by \<^verbatim>\<open>new Promise\<close> around the request at address \<open>a\<close>: settled by
  the call an abort has caused, if there is one, and otherwise by the call made when the
  network completes the request.
\<close>

definition request_promise :: "nat \<Rightarrow> promise" where
  "request_promise a w =
     (if a < length (requests w)
      then (case settled (requests w ! a) of
              Some (Success v) \<Rightarrow> (Fulfilled v, w)
            | Some (Fail e) \<Rightarrow> (Rejected (Val e), w)
            | None \<Rightarrow>
                (case responses w a of
                   None \<Rightarrow> (Pending, w)
                 | Some r \<Rightarrow>
                     (case dispatch (requests w ! a) r of
                        None \<Rightarrow> (Pending, w)
                      | Some (Success v) \<Rightarrow> (Fulfilled v, w)
                      | Some (Fail e) \<Rightarrow> (Rejected (Val e), w))))
      else (Pending, w))"

text \<open>
  The two handlers attached when \<^verbatim>\<open>options.routeWith\<close> is given. The parameter
  \<^verbatim>\<open>{message, ...redirect}\<close> throws a \<^verbatim>\<open>TypeError\<close> on \<^verbatim>\<open>undefined\<close> and \<^verbatim>\<open>null\<close>.
  \<^verbatim>\<open>urlFor\<close> calls a replaceable interpreter; it is the parameter \<open>uf\<close>, \<open>Inl\<close> when
  it throws. Neither handler returns a value.
\<close>

definition route_success ::
  "((string \<times> jsval) list \<Rightarrow> reason + string) \<Rightarrow> jsval \<Rightarrow> promise" where
  "route_success uf v w =
     (case get_prop v ''message'' of
        Inl e \<Rightarrow> (Rejected e, w)
      | Inr message \<Rightarrow>
          (let redirect = filter (\<lambda>(k, x). k \<noteq> ''message'') (own_props v) in
           if length redirect > 0
           then (case uf redirect of
                   Inl e \<Rightarrow> (Rejected e, w)
                 | Inr path \<Rightarrow>
                     (Fulfilled Undefined,
                      w\<lparr> navigation :=
                           navigation w @ [Push (location w) path (ServerMessage message)] \<rparr>))
           else (Fulfilled Undefined,
                 w\<lparr> navigation :=
                      navigation w @ [Replace (location w) (ServerMessage message)] \<rparr>)))"

definition route_failure :: "reason \<Rightarrow> promise" where
  "route_failure e w =
     (Fulfilled Undefined,
      w\<lparr> navigation := navigation w @ [Replace (location w) (ErrorMessage e)] \<rparr>)"

text \<open>
  \<^verbatim>\<open>wrap\<close>. \<open>fn\<close> builds and sends the request (\<open>Inl\<close> when it throws, and then
  \<^verbatim>\<open>xhr\<close> stays unset and the promise is rejected); \<open>routeWith\<close> says whether the
  caller passed a history handle.
\<close>

definition wrap ::
  "(string \<Rightarrow> jsval \<Rightarrow> reason + XMLHttpRequest) \<Rightarrow> ((string \<times> jsval) list \<Rightarrow> reason + string) \<Rightarrow>
   string \<Rightarrow> jsval \<Rightarrow> bool \<Rightarrow> world \<Rightarrow> CancellablePromise \<times> world" where
  "wrap fn uf u d routeWith w =
     (let (xhr, p0, w1) =
            (case fn u d of
               Inr x \<Rightarrow>
                 (Some (length (requests w)), request_promise (length (requests w)),
                  w\<lparr> requests := requests w @ [x] \<rparr>)
             | Inl e \<Rightarrow> (None, (\<lambda>w'. (Rejected e, w')), w));
          p1 = (if routeWith then then_p (Some (route_success uf)) (Some route_failure) p0
                else p0)
      in (makeCancellablePromise p1 (onCancel xhr), w1))"

text \<open>What the platform and the other modules provide.\<close>

record env =
  JSON_parse :: "string \<Rightarrow> jsval option"
  urlFor :: "(string \<times> jsval) list \<Rightarrow> reason + string"
  generatePath :: "string \<Rightarrow> jsval \<Rightarrow> reason + string"

definition JsonApi_get ::
  "env \<Rightarrow> string \<Rightarrow> jsval \<Rightarrow> bool \<Rightarrow> world \<Rightarrow> CancellablePromise \<times> world" where
  "JsonApi_get e = wrap (\<lambda>u d. Inr (api_get (JSON_parse e) u d)) (urlFor e)"

definition JsonApi_other ::
  "env \<Rightarrow> Method \<Rightarrow> string \<Rightarrow> jsval \<Rightarrow> bool \<Rightarrow> world \<Rightarrow> CancellablePromise \<times> world" where
  "JsonApi_other e m = wrap (\<lambda>u d. Inr (api_other (JSON_parse e) m u d)) (urlFor e)"

text \<open>The exported object, indexed by the method of each of its seven functions.\<close>

definition JsonApi ::
  "env \<Rightarrow> Method \<Rightarrow> string \<Rightarrow> jsval \<Rightarrow> bool \<Rightarrow> world \<Rightarrow> CancellablePromise \<times> world" where
  "JsonApi e m = (if m = GET then JsonApi_get e else JsonApi_other e m)"

section \<open>LoaderHOC\<close>

text \<open>
  The properties of the component that \<^verbatim>\<open>load\<close> and \<^verbatim>\<open>render\<close> read. A hook returns a
  value or throws; \<open>passthru\<close> holds the remaining properties with data values.
\<close>

record InnerProps =
  apiQuery :: jsval
  props_id :: jsval
  onError :: "(reason \<Rightarrow> reason + jsval) option"
  onLoad :: "(jsval \<Rightarrow> reason + jsval) option"
  passthru :: "(string \<times> jsval) list"

record options =
  serverAdapter :: "(jsval \<Rightarrow> reason + jsval) option"
  getApiQuery :: "(InnerProps \<Rightarrow> jsval) option"
  getUrlParams :: "(InnerProps \<Rightarrow> jsval) option"
  renderOnEmptyResult :: bool

text \<open>The constants \<^verbatim>\<open>LoaderHOC\<close> computes from its options.\<close>

definition the_serverAdapter :: "options \<Rightarrow> jsval \<Rightarrow> reason + jsval" where
  "the_serverAdapter opts = (case serverAdapter opts of Some f \<Rightarrow> f | None \<Rightarrow> (\<lambda>x. Inr x))"

definition the_getApiQuery :: "options \<Rightarrow> InnerProps \<Rightarrow> jsval" where
  "the_getApiQuery opts =
     (case getApiQuery opts of
        Some f \<Rightarrow> f
      | None \<Rightarrow> (\<lambda>p. if truthy (apiQuery p) then apiQuery p
                     else Obj PlainObject [(''id'', props_id p)]))"

definition the_getUrlParams :: "options \<Rightarrow> InnerProps \<Rightarrow> jsval" where
  "the_getUrlParams opts =
     (case getUrlParams opts of Some f \<Rightarrow> f | None \<Rightarrow> (\<lambda>p. Obj PlainObject []))"

text \<open>The two handlers of \<^verbatim>\<open>load\<close> and the call of \<^verbatim>\<open>onLoad\<close>.\<close>

definition load_success :: "options \<Rightarrow> jsval \<Rightarrow> promise" where
  "load_success opts response w =
     (case the_serverAdapter opts response of
        Inl e \<Rightarrow> (Rejected e, w)
      | Inr d \<Rightarrow> (Fulfilled Undefined, w\<lparr> state := (state w)\<lparr> data := d \<rparr> \<rparr>))"

definition load_failure :: "(reason \<Rightarrow> reason + jsval) option \<Rightarrow> reason \<Rightarrow> promise" where
  "load_failure hook es w =
     (case hook of
        Some h \<Rightarrow>
          (let w1 = w\<lparr> calls := calls w @ [OnErrorCall es] \<rparr> in
           case h es of
             Inl e \<Rightarrow> (Rejected e, w1)
           | Inr ret \<Rightarrow>
               if \<not> strict_eq ret (Bool False)
               then (Fulfilled Undefined, w1\<lparr> state := (state w1)\<lparr> errorStatus := es \<rparr> \<rparr>)
               else (Fulfilled Undefined, w1))
      | None \<Rightarrow> (Fulfilled Undefined, w\<lparr> state := (state w)\<lparr> errorStatus := es \<rparr> \<rparr>))"

definition call_onLoad :: "(jsval \<Rightarrow> reason + jsval) \<Rightarrow> jsval \<Rightarrow> promise" where
  "call_onLoad h v w =
     (let w1 = w\<lparr> calls := calls w @ [OnLoadCall v] \<rparr> in
      case h v of Inl e \<Rightarrow> (Rejected e, w1) | Inr ret \<Rightarrow> (Fulfilled ret, w1))"

text \<open>
  \<^verbatim>\<open>load(props = this.props)\<close>: \<^verbatim>\<open>onError\<close> is read from \<open>props\<close>, \<^verbatim>\<open>onLoad\<close> from
  \<^verbatim>\<open>this.props\<close>. The result is the last promise of the chain (the source discards it)
  and the world with the new request; \<open>Inl\<close> when \<^verbatim>\<open>generatePath\<close> throws.
\<close>

definition load ::
  "env \<Rightarrow> string \<Rightarrow> options \<Rightarrow> InnerProps \<Rightarrow> InnerProps \<Rightarrow> world \<Rightarrow>
   reason + (CancellablePromise \<times> world)" where
  "load e apiUrl opts this_props props w =
     (let computedApiQuery = the_getApiQuery opts props in
      case generatePath e apiUrl (the_getUrlParams opts props) of
        Inl x \<Rightarrow> Inl x
      | Inr computedUrl \<Rightarrow>
          (let (request, w1) = JsonApi_get e computedUrl computedApiQuery False w;
               p = cp_then request (Some (load_success opts))
                     (Some (load_failure (onError props)))
           in Inr (case onLoad this_props of
                     Some h \<Rightarrow> cp_then p (Some (call_onLoad h)) None
                   | None \<Rightarrow> p,
                   w1)))"

text \<open>
  What \<^verbatim>\<open>render\<close> returns: \<^verbatim>\<open>renderError(text)\<close>, \<^verbatim>\<open>renderLoader()\<close>, or the element
  of the wrapped component, of whose properties
  \<^verbatim>\<open>{data: data, ...getApiQuery(this.props), ...innerProps, onServerChange}\<close> the
  first three parts are kept in this order (a later part named \<^verbatim>\<open>data\<close> would take
  precedence over the first). Of \<^verbatim>\<open>innerProps\<close> the data values are listed; the hooks
  among them and \<^verbatim>\<open>onServerChange\<close> are functions.
\<close>

datatype element =
    ErrorElement reason
  | LoaderElement
  | DisplayElement jsval "(string \<times> jsval) list" "(string \<times> jsval) list"

fun truthy_reason :: "reason \<Rightarrow> bool" where
  "truthy_reason (Val v) = truthy v"
| "truthy_reason TypeError = True"

fun empty_array :: "jsval \<Rightarrow> bool" where
  "empty_array (Obj (ArrayObject n) ps) = (n = 0)"
| "empty_array v = False"

definition render :: "options \<Rightarrow> InnerProps \<Rightarrow> InnerState \<Rightarrow> element" where
  "render opts props st =
     (if truthy (data st)
      then (if empty_array (data st) \<and> \<not> renderOnEmptyResult opts
            then ErrorElement (Val (Str ''No results''))
            else DisplayElement (data st) (own_props (the_getApiQuery opts props))
                   (passthru props))
      else if truthy_reason (errorStatus st) then ErrorElement (errorStatus st)
      else LoaderElement)"

text \<open>
  The \<^verbatim>\<open>data\<close> property of the object
  \<^verbatim>\<open>{data: data, ...getApiQuery(this.props), ...innerProps, onServerChange}\<close> that the
  wrapped component receives: in an object literal a later property of the same name
  replaces an earlier one, so a passthrough property named \<^verbatim>\<open>data\<close> comes before one
  of the query, and that before the loaded data.
\<close>

fun display_data :: "element \<Rightarrow> jsval option" where
  "display_data (DisplayElement d q i) =
     Some (case map_of i ''data'' of
             Some x \<Rightarrow> x
           | None \<Rightarrow> (case map_of q ''data'' of Some x \<Rightarrow> x | None \<Rightarrow> d))"
| "display_data el = None"

section \<open>deepCompare\<close>

text \<open>
  \<^verbatim>\<open>getObjKeys\<close>: \<^verbatim>\<open>Object.keys\<close>, then \<^verbatim>\<open>name\<close> for a \<^verbatim>\<open>File\<close>, then \<^verbatim>\<open>size\<close> and
  \<^verbatim>\<open>type\<close> for a \<^verbatim>\<open>Blob\<close> (a \<^verbatim>\<open>File\<close> is a \<^verbatim>\<open>Blob\<close>).
\<close>

fun instanceof_File :: "jsval \<Rightarrow> bool" where
  "instanceof_File (Obj (FileObject name sz ty) ps) = True"
| "instanceof_File v = False"

fun instanceof_Blob :: "jsval \<Rightarrow> bool" where
  "instanceof_Blob (Obj (FileObject name sz ty) ps) = True"
| "instanceof_Blob (Obj (BlobObject sz ty) ps) = True"
| "instanceof_Blob v = False"

definition getObjKeys :: "jsval \<Rightarrow> string list" where
  "getObjKeys obj =
     (let keys = map fst (own_props obj);
          keys = (if instanceof_File obj then keys @ [''name''] else keys);
          keys = (if instanceof_Blob obj then keys @ [''size'', ''type''] else keys)
      in keys)"

text \<open>
  \<^verbatim>\<open>deepCompare\<close>, with the \<^verbatim>\<open>for\<close> loop over the keys of the first operand as
  \<open>deepCompare_loop\<close>. \<^verbatim>\<open>isNaN\<close> is applied to numbers only.
\<close>

function deepCompare :: "jsval \<Rightarrow> jsval \<Rightarrow> bool"
  and deepCompare_loop :: "jsval \<Rightarrow> jsval \<Rightarrow> string list \<Rightarrow> bool" where
  "deepCompare i1 i2 =
     (if (typeof_number i1 \<and> typeof_number i2) \<and> (i1 = NaN \<and> i2 = NaN) then True
      else if \<not> (typeof_object i1 \<and> typeof_object i2) \<or> (i1 = Null \<or> i2 = Null)
           then strict_eq i1 i2
      else if length (getObjKeys i1) \<noteq> length (getObjKeys i2) then False
      else deepCompare_loop i1 i2 (getObjKeys i1))"
| "deepCompare_loop i1 i2 [] = True"
| "deepCompare_loop i1 i2 (prop # rest) =
     (if typeof_object (member i1 prop) \<and> member i1 prop \<noteq> Null
      then (if \<not> deepCompare (member i1 prop) (member i2 prop) then False
            else deepCompare_loop i1 i2 rest)
      else if \<not> strict_eq (member i1 prop) (member i2 prop) then False
      else deepCompare_loop i1 i2 rest)"
  by pat_completeness auto
termination
proof (relation "inv_image (less_than <*lex*> less_than)
    (\<lambda>x. case x of
           Inl (i1, i2) \<Rightarrow> (size i1, Suc (length (getObjKeys i1)))
         | Inr (i1, i2, keys) \<Rightarrow> (size i1, length keys))")
  fix i1 i2 :: jsval and k :: string and rest :: "string list"
  assume obj: "typeof_object (member i1 k) \<and> member i1 k \<noteq> Null"
  have "size (member i1 k) < size i1"
  proof (cases i1)
    case (Obj kd ps)
    show ?thesis
    proof (cases "map_of ps k")
      case None
      with obj Obj show ?thesis by (cases kd) (auto split: if_splits)
    next
      case (Some v)
      then have "(k, v) \<in> set ps" by (rule map_of_SomeD)
      then have "size v < Suc (size_list (size_prod (\<lambda>_. 0) size) ps)"
        by (induction ps) auto
      with Some Obj show ?thesis by simp
    qed
  next
    case (Str s)
    with obj show ?thesis by (auto simp: string_prop_def split: option.splits if_splits)
  qed (use obj in auto)
  then show "(Inl (member i1 k, member i2 k), Inr (i1, i2, k # rest)) \<in>
      inv_image (less_than <*lex*> less_than)
        (\<lambda>x. case x of
               Inl (i1, i2) \<Rightarrow> (size i1, Suc (length (getObjKeys i1)))
             | Inr (i1, i2, keys) \<Rightarrow> (size i1, length keys))"
    by simp
qed auto

section \<open>Sample surroundings\<close>

text \<open>
  A world before any request, in which the network completes every request with \<open>r\<close>;
  an environment whose \<^verbatim>\<open>JSON.parse\<close> is \<open>parse\<close>; a plain set of properties; a
  \<^verbatim>\<open>catch\<close> handler that records the reason it is called with.
\<close>

definition world0 :: "xhr_response \<Rightarrow> world" where
  "world0 r =
     \<lparr> requests = [], responses = (\<lambda>a. Some r), location = [], navigation = [],
       state = \<lparr> data = Undefined, errorStatus = Val Undefined \<rparr>, calls = [] \<rparr>"

definition env0 :: "(string \<Rightarrow> jsval option) \<Rightarrow> env" where
  "env0 parse =
     \<lparr> JSON_parse = parse, urlFor = (\<lambda>ps. Inr ''/''), generatePath = (\<lambda>path params. Inr path) \<rparr>"

definition props0 :: "(reason \<Rightarrow> reason + jsval) option \<Rightarrow> (jsval \<Rightarrow> reason + jsval) option \<Rightarrow> InnerProps" where
  "props0 oe ol =
     \<lparr> apiQuery = Undefined, props_id = Num 1, onError = oe, onLoad = ol, passthru = [] \<rparr>"

definition options0 :: "bool \<Rightarrow> options" where
  "options0 b =
     \<lparr> serverAdapter = None, getApiQuery = None, getUrlParams = None,
       renderOnEmptyResult = b \<rparr>"

definition record_rejection :: "reason \<Rightarrow> promise" where
  "record_rejection e w = (Fulfilled (Str ''caught''), w\<lparr> calls := calls w @ [OnErrorCall e] \<rparr>)"



text \<open>The adapter \<^verbatim>\<open>data => ({dataWrapper: data})\<close>.\<close>

definition dataWrapper :: "jsval \<Rightarrow> reason + jsval" where
  "dataWrapper x = Inr (Obj PlainObject [(''dataWrapper'', x)])"

section \<open>Facts about running a call\<close>

lemma cancel_chain: "cancel (chain cp ls) = cancel cp"
proof (induction ls arbitrary: cp)
  case Nil
  show ?case by simp
next
  case (Cons l ls)
  show ?case
    by (cases l) (simp_all add: Cons.IH cp_then_def cp_catch_def makeCancellablePromise_def)
qed

lemma wrap_sent:
  "fn u d = Inr x \<Longrightarrow>
   wrap fn uf u d rw w =
     (makeCancellablePromise
        (if rw then then_p (Some (route_success uf)) (Some route_failure)
                      (request_promise (length (requests w)))
         else request_promise (length (requests w)))
        (onCancel (Some (length (requests w)))),
      w\<lparr> requests := requests w @ [x] \<rparr>)"
  by (simp add: wrap_def)

lemma JsonApi_sent:
  "JsonApi e m u d rw w =
     (makeCancellablePromise
        (if rw then then_p (Some (route_success (urlFor e))) (Some route_failure)
                      (request_promise (length (requests w)))
         else request_promise (length (requests w)))
        (onCancel (Some (length (requests w)))),
      w\<lparr> requests := requests w @
            [if m = GET then api_get (JSON_parse e) u d else api_other (JSON_parse e) m u d] \<rparr>)"
  by (simp add: JsonApi_def JsonApi_get_def JsonApi_other_def wrap_sent)

lemma dispatch_send:
  "dispatch (send parse m u d ct) r =
     (if status r = 0 then Some (Fail (Str ''Could not reach the server''))
      else Some (xhr_onload parse r))"
  by (simp add: dispatch_def send_def xhr_onreadystatechange_def Let_def)

lemma request_promise_fresh:
  "responses w (length (requests w)) = Some r \<Longrightarrow> settled x = None \<Longrightarrow>
   request_promise (length (requests w)) (w\<lparr> requests := requests w @ [x] \<rparr>) =
     (case dispatch x r of
        None \<Rightarrow> (Pending, w\<lparr> requests := requests w @ [x] \<rparr>)
      | Some (Success v) \<Rightarrow> (Fulfilled v, w\<lparr> requests := requests w @ [x] \<rparr>)
      | Some (Fail e) \<Rightarrow> (Rejected (Val e), w\<lparr> requests := requests w @ [x] \<rparr>))"
  by (simp add: request_promise_def)

lemma sent_unsettled:
  "settled (if m = GET then api_get parse u d else api_other parse m u d) = None"
  by (simp add: api_get_def api_other_def send_def Let_def)

lemma dispatch_api:
  "dispatch (if m = GET then api_get parse u d else api_other parse m u d) r =
     (if status r = 0 then Some (Fail (Str ''Could not reach the server''))
      else Some (xhr_onload parse r))"
  by (simp add: api_get_def api_other_def dispatch_send)

lemma request_run:
  assumes "responses w (length (requests w)) = Some r" and "status r \<noteq> 0"
  shows "request_promise (length (requests w)) (snd (JsonApi e m u d rw w)) =
     (case xhr_onload (JSON_parse e) r of Success v \<Rightarrow> Fulfilled v | Fail x \<Rightarrow> Rejected (Val x),
      snd (JsonApi e m u d rw w))"
  using assms
  by (simp add: JsonApi_sent request_promise_fresh sent_unsettled dispatch_api
      split: settle.splits)

lemma unrouted_run:
  "run (JsonApi e m u d False w) =
     request_promise (length (requests w)) (snd (JsonApi e m u d False w))"
  by (simp add: run_def JsonApi_sent makeCancellablePromise_def)

lemma JsonApi_plain_run:
  assumes "responses w (length (requests w)) = Some r" and "status r \<noteq> 0"
  shows "run (JsonApi e m u d False w) =
     (case xhr_onload (JSON_parse e) r of Success v \<Rightarrow> Fulfilled v | Fail x \<Rightarrow> Rejected (Val x),
      snd (JsonApi e m u d False w))"
  using request_run [OF assms] by (simp add: unrouted_run)

lemma map_of_put: "map_of (put k x ps) k' = (if k' = k then Some x else map_of ps k')"
  by (induction ps) auto

lemma member_put:
  "member (Obj kd (put k x ps)) k' = (if k' = k then x else member (Obj kd ps) k')"
  by (simp add: map_of_put)

lemma dispatch_failure:
  "\<not> (200 \<le> status r \<and> status r < 300) \<Longrightarrow>
   dispatch (if m = GET then api_get parse u d else api_other parse m u d) r =
     Some (Fail (if status r = 0 then Str ''Could not reach the server''
                 else doError parse (responseText r)))"
  by (auto simp: dispatch_api xhr_onload_def)

lemma then_p_rejected:
  "p w = (Rejected x, w') \<Longrightarrow> then_p f (Some g) p w = g x w'"
  by (simp add: then_p_def)

lemma then_p_fulfilled:
  "p w = (Fulfilled x, w') \<Longrightarrow> then_p (Some f) g p w = f x w'"
  by (simp add: then_p_def)

lemma then_p_skip:
  "p w = (Fulfilled x, w') \<Longrightarrow> then_p None g p w = (Fulfilled x, w')"
  by (simp add: then_p_def)

lemma failure_run:
  assumes "responses w (length (requests w)) = Some r"
    and "\<not> (200 \<le> status r \<and> status r < 300)"
  shows "run (JsonApi e m u d rw w) =
     (if rw
      then (Fulfilled Undefined,
            (snd (JsonApi e m u d rw w))
              \<lparr> navigation := navigation w @
                   [Replace (location w)
                      (ErrorMessage (Val (if status r = 0 then Str ''Could not reach the server''
                                          else doError (JSON_parse e) (responseText r))))] \<rparr>)
      else (Rejected (Val (if status r = 0 then Str ''Could not reach the server''
                           else doError (JSON_parse e) (responseText r))),
            snd (JsonApi e m u d rw w)))"
proof -
  let ?x = "if m = GET then api_get (JSON_parse e) u d else api_other (JSON_parse e) m u d"
  let ?w1 = "w\<lparr> requests := requests w @ [?x] \<rparr>"
  let ?msg = "if status r = 0 then Str ''Could not reach the server''
              else doError (JSON_parse e) (responseText r)"
  have rp: "request_promise (length (requests w)) ?w1 = (Rejected (Val ?msg), ?w1)"
    using assms by (simp add: request_promise_fresh sent_unsettled dispatch_failure)
  show ?thesis
  proof (cases rw)
    case True
    with rp show ?thesis
      by (simp add: run_def JsonApi_sent makeCancellablePromise_def then_p_rejected
          route_failure_def)
  next
    case False
    with rp show ?thesis
      by (simp add: run_def JsonApi_sent makeCancellablePromise_def)
  qed
qed

lemma run_catch_fulfilled:
  "run (F, w) = (Fulfilled x, w') \<Longrightarrow> run (cp_catch F (Some h), w) = (Fulfilled x, w')"
  by (simp add: run_def cp_catch_def cp_then_def makeCancellablePromise_def then_p_skip)

lemma run_catch_rejected:
  "run (F, w) = (Rejected x, w') \<Longrightarrow> run (cp_catch F (Some h), w) = h x w'"
  by (simp add: run_def cp_catch_def cp_then_def makeCancellablePromise_def then_p_rejected)

lemma run_then_fulfilled:
  "run (F, w) = (Fulfilled x, w') \<Longrightarrow> run (cp_then F (Some f) g, w) = f x w'"
  by (simp add: run_def cp_then_def makeCancellablePromise_def then_p_fulfilled)

lemma route_success_outcome:
  "fst (route_success uf v w) = Fulfilled Undefined \<or> (\<exists>x. fst (route_success uf v w) = Rejected x)"
  by (auto simp: route_success_def Let_def split: sum.splits if_splits)

lemma routed_outcome:
  "fst (then_p (Some (route_success uf)) (Some route_failure) p w) = Fulfilled Undefined \<or>
   fst (then_p (Some (route_success uf)) (Some route_failure) p w) = Pending \<or>
   (\<exists>x. fst (then_p (Some (route_success uf)) (Some route_failure) p w) = Rejected x)"
proof (cases "p w")
  case (Pair out w')
  show ?thesis
  proof (cases out)
    case (Fulfilled v)
    with Pair route_success_outcome [of uf v w'] show ?thesis
      by (auto simp: then_p_def)
  next
    case (Rejected x)
    with Pair show ?thesis by (simp add: then_p_def route_failure_def)
  next
    case Pending
    with Pair show ?thesis by (simp add: then_p_def)
  qed
qed

lemma routed_fulfilled_undefined:
  assumes "fst (run (JsonApi e m u d True w)) = Fulfilled x"
  shows "x = Undefined"
  using assms
    routed_outcome [of "urlFor e" "request_promise (length (requests w))"
      "snd (JsonApi e m u d True w)"]
  by (auto simp: run_def JsonApi_sent makeCancellablePromise_def)

lemma success_run:
  assumes "responses w (length (requests w)) = Some r"
    and "200 \<le> status r" and "status r < 300"
  shows "request_promise (length (requests w)) (snd (JsonApi e m u d rw w)) =
     (Fulfilled (doSuccess (JSON_parse e) (responseText r)
                   (case locationHeader r of
                      None \<Rightarrow> None
                    | Some l \<Rightarrow> if l \<noteq> [] then Some l else None)),
      snd (JsonApi e m u d rw w))"
proof -
  have "status r \<noteq> 0" using assms(2) by simp
  then show ?thesis
    using assms by (simp add: request_run xhr_onload_def split: option.splits)
qed

lemma routed_success_run:
  assumes "responses w (length (requests w)) = Some r"
    and "200 \<le> status r" and "status r < 300"
  shows "run (JsonApi e m u d True w) =
     route_success (urlFor e)
       (doSuccess (JSON_parse e) (responseText r)
          (case locationHeader r of
             None \<Rightarrow> None
           | Some l \<Rightarrow> if l \<noteq> [] then Some l else None))
       (snd (JsonApi e m u d True w))"
proof -
  have "then_p (Some (route_success (urlFor e))) (Some route_failure)
          (request_promise (length (requests w))) (snd (JsonApi e m u d True w)) =
        route_success (urlFor e)
          (doSuccess (JSON_parse e) (responseText r)
             (case locationHeader r of
                None \<Rightarrow> None
              | Some l \<Rightarrow> if l \<noteq> [] then Some l else None))
          (snd (JsonApi e m u d True w))"
    by (rule then_p_fulfilled) (rule success_run [OF assms])
  then show ?thesis
    by (simp add: run_def JsonApi_sent makeCancellablePromise_def)
qed

text \<open>
  A future cancelled while its request is in flight is rejected with
  \<^verbatim>\<open>"Could not reach the server"\<close>, whatever the network would have answered.
\<close>

lemma cancelled_rejected:
  "cancel (fst (JsonApi e m u d False w)) (snd (JsonApi e m u d False w)) = Inr w' \<Longrightarrow>
   promise (fst (JsonApi e m u d False w)) w' =
     (Rejected (Val (Str ''Could not reach the server'')), w')"
  by (auto simp: JsonApi_sent makeCancellablePromise_def onCancel_def request_promise_def
      xhr_abort_def api_get_def api_other_def send_def xhr_onreadystatechange_def Let_def)

section \<open>Cancellation survives chaining\<close>

text \<open>
  C1. For the future \<open>F\<close> returned by a wrapped API function and every chain of
  \<^verbatim>\<open>then\<close> and \<^verbatim>\<open>catch\<close> links, the future at the end of the chain has the
  \<^verbatim>\<open>cancel\<close> of \<open>F\<close>; so has \<open>F.then(f)\<close> for every handler \<open>f\<close>; that
  \<^verbatim>\<open>cancel\<close> is the closure over the request \<^verbatim>\<open>wrap\<close> created; and for each of the
  seven API functions, cancelling the end of the chain aborts the request that the call
  sent and touches nothing else.
\<close>

theorem cancel_forwarded:
  "cancel (chain (fst (wrap fn uf u d rw w)) ls) = cancel (fst (wrap fn uf u d rw w)) \<and>
   cancel (cp_then (fst (wrap fn uf u d rw w)) (Some f) g) = cancel (fst (wrap fn uf u d rw w)) \<and>
   cancel (fst (wrap fn uf u d rw w)) =
     onCancel (case fn u d of Inr x \<Rightarrow> Some (length (requests w)) | Inl e \<Rightarrow> None) \<and>
   cancel (chain (fst (JsonApi e m u d rw w)) ls) (snd (JsonApi e m u d rw w)) =
     Inr (w\<lparr> requests := requests w @
                [xhr_abort (if m = GET then api_get (JSON_parse e) u d
                            else api_other (JSON_parse e) m u d)] \<rparr>)"
proof -
  have "cancel (fst (wrap fn uf u d rw w)) =
     onCancel (case fn u d of Inr x \<Rightarrow> Some (length (requests w)) | Inl e \<Rightarrow> None)"
    by (cases "fn u d") (simp_all add: wrap_def makeCancellablePromise_def)
  moreover have "cancel (chain (fst (JsonApi e m u d rw w)) ls) (snd (JsonApi e m u d rw w)) =
     Inr (w\<lparr> requests := requests w @
                [xhr_abort (if m = GET then api_get (JSON_parse e) u d
                            else api_other (JSON_parse e) m u d)] \<rparr>)"
    by (simp add: cancel_chain JsonApi_sent makeCancellablePromise_def onCancel_def)
  ultimately show ?thesis
    by (simp add: cancel_chain cp_then_def makeCancellablePromise_def)
qed

section \<open>Normalised outcomes of a request\<close>

text \<open>
  C2, as amended. A request made without a navigation handle that completes with a
  status outside [200,300) other than 0 rejects the returned future: with the string of
  the \<^verbatim>\<open>error\<close> field of the parsed object (\<^verbatim>\<open>"(no message provided)"\<close> for the empty
  string), with the whole parsed object when it has no \<^verbatim>\<open>error\<close> field, and, when the
  body does not parse, with the body text, or with
  \<^verbatim>\<open>"Server returned with an unexpected response"\<close> for the empty body. Made with a
  navigation handle, the same request does not reject the returned future: it is
  fulfilled with \<^verbatim>\<open>undefined\<close>.
\<close>

theorem error_normalised:
  assumes "\<not> (200 \<le> status r \<and> status r < 300)" and "status r \<noteq> 0"
    and "responses w (length (requests w)) = Some r"
  shows "(JSON_parse e (responseText r) = Some (Obj kd ps) \<and> map_of ps ''error'' = Some (Str s) \<longrightarrow>
            fst (run (JsonApi e m u d False w)) =
              Rejected (Val (Str (if s = [] then ''(no message provided)'' else s)))) \<and>
         (JSON_parse e (responseText r) = Some (Obj kd ps) \<and> map_of ps ''error'' = None \<longrightarrow>
            fst (run (JsonApi e m u d False w)) = Rejected (Val (Obj kd ps))) \<and>
         (JSON_parse e (responseText r) = None \<longrightarrow>
            fst (run (JsonApi e m u d False w)) =
              Rejected (Val (Str (if responseText r = []
                                  then ''Server returned with an unexpected response''
                                  else responseText r)))) \<and>
         fst (run (JsonApi e m u d True w)) = Fulfilled Undefined"
proof -
  have run: "fst (run (JsonApi e m u d False w)) =
      Rejected (Val (doError (JSON_parse e) (responseText r)))"
    using failure_run [OF assms(3,1), of e m u d False] assms(2) by simp
  have routed: "fst (run (JsonApi e m u d True w)) = Fulfilled Undefined"
    using failure_run [OF assms(3,1), of e m u d True] by simp
  have a: "doError (JSON_parse e) (responseText r) =
      Str (if s = [] then ''(no message provided)'' else s)"
    if "JSON_parse e (responseText r) = Some (Obj kd ps)" "map_of ps ''error'' = Some (Str s)"
    using that by (simp add: doError_def get_prop_def js_or_def)
  have b: "doError (JSON_parse e) (responseText r) = Obj kd ps"
    if "JSON_parse e (responseText r) = Some (Obj kd ps)" "map_of ps ''error'' = None"
    using that by (cases kd) (simp_all add: doError_def get_prop_def js_or_def)
  have c: "doError (JSON_parse e) (responseText r) =
      Str (if responseText r = [] then ''Server returned with an unexpected response''
           else responseText r)"
    if "JSON_parse e (responseText r) = None"
    using that by (simp add: doError_def js_or_def)
  from a b c routed show ?thesis unfolding run by blast
qed

text \<open>
  The examples of the specification and an object without \<^verbatim>\<open>error\<close>, sent without a
  navigation handle; a status 500 sent with one.
\<close>

theorem error_normalised_witness:
  \<open>fst (run (JsonApi (env0 (map_of [(''{"error":"bad id"}'', Obj PlainObject [(''error'', Str ''bad id'')])]))
             GET ''/items'' Undefined False
             (world0 \<lparr> status = 404, responseText = ''{"error":"bad id"}'', locationHeader = None \<rparr>))) =
     Rejected (Val (Str ''bad id'')) \<and>
   fst (run (JsonApi (env0 (map_of [(''{"error":""}'', Obj PlainObject [(''error'', Str [])])]))
             POST ''/items'' Undefined False
             (world0 \<lparr> status = 404, responseText = ''{"error":""}'', locationHeader = None \<rparr>))) =
     Rejected (Val (Str ''(no message provided)'')) \<and>
   fst (run (JsonApi (env0 (map_of [(''{"code":7}'', Obj PlainObject [(''code'', Num 7)])]))
             GET ''/items'' Undefined False
             (world0 \<lparr> status = 500, responseText = ''{"code":7}'', locationHeader = None \<rparr>))) =
     Rejected (Val (Obj PlainObject [(''code'', Num 7)])) \<and>
   fst (run (JsonApi (env0 (map_of [])) GET ''/items'' Undefined False
             (world0 \<lparr> status = 500, responseText = ''oops'', locationHeader = None \<rparr>))) =
     Rejected (Val (Str ''oops'')) \<and>
   fst (run (JsonApi (env0 (map_of [])) GET ''/items'' Undefined False
             (world0 \<lparr> status = 500, responseText = [], locationHeader = None \<rparr>))) =
     Rejected (Val (Str ''Server returned with an unexpected response'')) \<and>
   fst (run (JsonApi (env0 (map_of [])) GET ''/items'' Undefined True
             (world0 \<lparr> status = 500, responseText = ''oops'', locationHeader = None \<rparr>))) =
     Fulfilled Undefined\<close>
  using
    error_normalised [where r = \<open>\<lparr> status = 404, responseText = ''{"error":"bad id"}'', locationHeader = None \<rparr>\<close>
      and w = \<open>world0 \<lparr> status = 404, responseText = ''{"error":"bad id"}'', locationHeader = None \<rparr>\<close>
      and e = \<open>env0 (map_of [(''{"error":"bad id"}'', Obj PlainObject [(''error'', Str ''bad id'')])])\<close>
      and kd = PlainObject and ps = "[(''error'', Str ''bad id'')]" and s = "''bad id''"
      and m = GET and u = "''/items''" and d = Undefined]
    error_normalised [where r = \<open>\<lparr> status = 404, responseText = ''{"error":""}'', locationHeader = None \<rparr>\<close>
      and w = \<open>world0 \<lparr> status = 404, responseText = ''{"error":""}'', locationHeader = None \<rparr>\<close>
      and e = \<open>env0 (map_of [(''{"error":""}'', Obj PlainObject [(''error'', Str [])])])\<close>
      and kd = PlainObject and ps = "[(''error'', Str [])]" and s = "[]"
      and m = POST and u = "''/items''" and d = Undefined]
    error_normalised [where r = \<open>\<lparr> status = 500, responseText = ''{"code":7}'', locationHeader = None \<rparr>\<close>
      and w = \<open>world0 \<lparr> status = 500, responseText = ''{"code":7}'', locationHeader = None \<rparr>\<close>
      and e = \<open>env0 (map_of [(''{"code":7}'', Obj PlainObject [(''code'', Num 7)])])\<close>
      and kd = PlainObject and ps = "[(''code'', Num 7)]"
      and m = GET and u = "''/items''" and d = Undefined]
    error_normalised [where r = \<open>\<lparr> status = 500, responseText = ''oops'', locationHeader = None \<rparr>\<close>
      and w = \<open>world0 \<lparr> status = 500, responseText = ''oops'', locationHeader = None \<rparr>\<close>
      and e = \<open>env0 (map_of [])\<close>
      and m = GET and u = "''/items''" and d = Undefined]
    error_normalised [where r = \<open>\<lparr> status = 500, responseText = [], locationHeader = None \<rparr>\<close>
      and w = \<open>world0 \<lparr> status = 500, responseText = [], locationHeader = None \<rparr>\<close>
      and e = \<open>env0 (map_of [])\<close>
      and m = GET and u = "''/items''" and d = Undefined]
  by (simp add: world0_def env0_def)

text \<open>
  C2 as stated fails: a status 404 with the body \<^verbatim>\<open>{"error":"bad id"}\<close>, sent with a
  navigation handle, fulfils the returned future with \<^verbatim>\<open>undefined\<close> and does not reject
  it with \<^verbatim>\<open>"bad id"\<close>.
\<close>

theorem error_routed_counterexample:
  \<open>JSON_parse (env0 (map_of [(''{"error":"bad id"}'', Obj PlainObject [(''error'', Str ''bad id'')])]))
     ''{"error":"bad id"}'' = Some (Obj PlainObject [(''error'', Str ''bad id'')]) \<and>
   fst (run (JsonApi (env0 (map_of [(''{"error":"bad id"}'', Obj PlainObject [(''error'', Str ''bad id'')])]))
             GET ''/items'' Undefined True
             (world0 \<lparr> status = 404, responseText = ''{"error":"bad id"}'', locationHeader = None \<rparr>))) =
     Fulfilled Undefined \<and>
   fst (run (JsonApi (env0 (map_of [(''{"error":"bad id"}'', Obj PlainObject [(''error'', Str ''bad id'')])]))
             GET ''/items'' Undefined True
             (world0 \<lparr> status = 404, responseText = ''{"error":"bad id"}'', locationHeader = None \<rparr>))) \<noteq>
     Rejected (Val (Str ''bad id''))\<close>
proof -
  let ?r = \<open>\<lparr> status = 404, responseText = ''{"error":"bad id"}'', locationHeader = None \<rparr>\<close>
  have resp: "responses (world0 ?r) (length (requests (world0 ?r))) = Some ?r"
    by (simp add: world0_def)
  have st: "\<not> (200 \<le> status ?r \<and> status ?r < 300)" by simp
  show ?thesis
    using failure_run [OF resp st, of _ GET "''/items''" Undefined True]
    by (simp add: env0_def)
qed

text \<open>
  C3, as amended. A request made without a navigation handle that completes with a
  status in [200,300) fulfils the returned future and never rejects it. Without a
  \<^verbatim>\<open>Location\<close> header (or with an empty one) the value is the parsed body, or the body
  text when parsing fails. With a \<^verbatim>\<open>Location\<close> header \<open>l\<close> and a parsed body that is
  an object (an array included), the value is that object with \<^verbatim>\<open>redirectTo\<close> set to
  \<open>l\<close> and every other property as parsed. With a \<^verbatim>\<open>Location\<close> header and a parsed
  body that is not an object (\<^verbatim>\<open>null\<close>, or a primitive, on which the assignment throws
  in strict mode) the value is the body text, not the parsed body. Made with a
  navigation handle, the request does not deliver this value to the returned future,
  which is fulfilled with \<^verbatim>\<open>undefined\<close> or rejected.
\<close>

theorem success_normalised:
  assumes "200 \<le> status r" and "status r < 300"
    and "responses w (length (requests w)) = Some r"
  shows "(\<exists>x. fst (run (JsonApi e m u d False w)) = Fulfilled x) \<and>
         (JSON_parse e (responseText r) = None \<longrightarrow>
            fst (run (JsonApi e m u d False w)) = Fulfilled (Str (responseText r))) \<and>
         (JSON_parse e (responseText r) = Some v \<and>
          (locationHeader r = None \<or> locationHeader r = Some []) \<longrightarrow>
            fst (run (JsonApi e m u d False w)) = Fulfilled v) \<and>
         (JSON_parse e (responseText r) = Some (Obj kd ps) \<and>
          locationHeader r = Some l \<and> l \<noteq> [] \<longrightarrow>
            fst (run (JsonApi e m u d False w)) =
              Fulfilled (Obj kd (put ''redirectTo'' (Str l) ps)) \<and>
            member (Obj kd (put ''redirectTo'' (Str l) ps)) ''redirectTo'' = Str l \<and>
            (\<forall>k. k \<noteq> ''redirectTo'' \<longrightarrow>
               member (Obj kd (put ''redirectTo'' (Str l) ps)) k = member (Obj kd ps) k)) \<and>
         (JSON_parse e (responseText r) = Some v \<and> (\<forall>kd ps. v \<noteq> Obj kd ps) \<and>
          locationHeader r = Some l \<and> l \<noteq> [] \<longrightarrow>
            fst (run (JsonApi e m u d False w)) = Fulfilled (Str (responseText r))) \<and>
         (fst (run (JsonApi e m u d True w)) = Fulfilled Undefined \<or>
          (\<exists>x. fst (run (JsonApi e m u d True w)) = Rejected x))"
proof -
  let ?loc = "case locationHeader r of
                None \<Rightarrow> None
              | Some l \<Rightarrow> if l \<noteq> [] then Some l else None"
  have run: "fst (run (JsonApi e m u d False w)) =
      Fulfilled (doSuccess (JSON_parse e) (responseText r) ?loc)"
    using success_run [OF assms(3,1,2), of e m u d False] by (simp add: unrouted_run)
  have routed: "fst (run (JsonApi e m u d True w)) = Fulfilled Undefined \<or>
      (\<exists>x. fst (run (JsonApi e m u d True w)) = Rejected x)"
    unfolding routed_success_run [OF assms(3,1,2)] by (rule route_success_outcome)
  have a: "doSuccess (JSON_parse e) (responseText r) ?loc = Str (responseText r)"
    if "JSON_parse e (responseText r) = None"
    using that by (simp add: doSuccess_def)
  have b: "doSuccess (JSON_parse e) (responseText r) ?loc = v"
    if "JSON_parse e (responseText r) = Some v"
       "locationHeader r = None \<or> locationHeader r = Some []"
    using that by (auto simp: doSuccess_def)
  have c: "doSuccess (JSON_parse e) (responseText r) ?loc =
      Obj kd (put ''redirectTo'' (Str l) ps)"
    if "JSON_parse e (responseText r) = Some (Obj kd ps)" "locationHeader r = Some l" "l \<noteq> []"
    using that by (simp add: doSuccess_def)
  have d: "doSuccess (JSON_parse e) (responseText r) ?loc = Str (responseText r)"
    if "JSON_parse e (responseText r) = Some v" "\<forall>kd ps. v \<noteq> Obj kd ps"
       "locationHeader r = Some l" "l \<noteq> []"
    using that by (cases v) (simp_all add: doSuccess_def)
  have main: "(\<exists>x. fst (run (JsonApi e m u d False w)) = Fulfilled x) \<and>
         (JSON_parse e (responseText r) = None \<longrightarrow>
            fst (run (JsonApi e m u d False w)) = Fulfilled (Str (responseText r))) \<and>
         (JSON_parse e (responseText r) = Some v \<and>
          (locationHeader r = None \<or> locationHeader r = Some []) \<longrightarrow>
            fst (run (JsonApi e m u d False w)) = Fulfilled v) \<and>
         (JSON_parse e (responseText r) = Some (Obj kd ps) \<and>
          locationHeader r = Some l \<and> l \<noteq> [] \<longrightarrow>
            fst (run (JsonApi e m u d False w)) =
              Fulfilled (Obj kd (put ''redirectTo'' (Str l) ps)) \<and>
            member (Obj kd (put ''redirectTo'' (Str l) ps)) ''redirectTo'' = Str l \<and>
            (\<forall>k. k \<noteq> ''redirectTo'' \<longrightarrow>
               member (Obj kd (put ''redirectTo'' (Str l) ps)) k = member (Obj kd ps) k)) \<and>
         (JSON_parse e (responseText r) = Some v \<and> (\<forall>kd ps. v \<noteq> Obj kd ps) \<and>
          locationHeader r = Some l \<and> l \<noteq> [] \<longrightarrow>
            fst (run (JsonApi e m u d False w)) = Fulfilled (Str (responseText r)))"
    unfolding run using a b c d by (simp add: member_put del: member.simps)
  from main routed show ?thesis by blast
qed

text \<open>
  A body that does not parse; an object without and with \<^verbatim>\<open>Location\<close>; the number 7
  with \<^verbatim>\<open>Location\<close>.
\<close>

theorem success_normalised_witness:
  \<open>fst (run (JsonApi (env0 (map_of [])) GET ''/items'' Undefined False
             (world0 \<lparr> status = 200, responseText = ''OK'', locationHeader = None \<rparr>))) =
     Fulfilled (Str ''OK'') \<and>
   fst (run (JsonApi (env0 (map_of [(''{"id":7}'', Obj PlainObject [(''id'', Num 7)])]))
             GET ''/items'' Undefined False
             (world0 \<lparr> status = 200, responseText = ''{"id":7}'', locationHeader = None \<rparr>))) =
     Fulfilled (Obj PlainObject [(''id'', Num 7)]) \<and>
   fst (run (JsonApi (env0 (map_of [(''{"id":7}'', Obj PlainObject [(''id'', Num 7)])]))
             POST ''/items'' Undefined False
             (world0 \<lparr> status = 201, responseText = ''{"id":7}'',
                       locationHeader = Some ''/items/7'' \<rparr>))) =
     Fulfilled (Obj PlainObject [(''id'', Num 7), (''redirectTo'', Str ''/items/7'')]) \<and>
   fst (run (JsonApi (env0 (map_of [(''7'', Num 7)])) POST ''/items'' Undefined False
             (world0 \<lparr> status = 201, responseText = ''7'',
                       locationHeader = Some ''/items/7'' \<rparr>))) =
     Fulfilled (Str ''7'')\<close>
  using
    success_normalised [where r = \<open>\<lparr> status = 200, responseText = ''OK'', locationHeader = None \<rparr>\<close>
      and w = \<open>world0 \<lparr> status = 200, responseText = ''OK'', locationHeader = None \<rparr>\<close>
      and e = \<open>env0 (map_of [])\<close> and m = GET and u = "''/items''" and d = Undefined]
    success_normalised [where r = \<open>\<lparr> status = 200, responseText = ''{"id":7}'', locationHeader = None \<rparr>\<close>
      and w = \<open>world0 \<lparr> status = 200, responseText = ''{"id":7}'', locationHeader = None \<rparr>\<close>
      and e = \<open>env0 (map_of [(''{"id":7}'', Obj PlainObject [(''id'', Num 7)])])\<close>
      and v = \<open>Obj PlainObject [(''id'', Num 7)]\<close>
      and m = GET and u = "''/items''" and d = Undefined]
    success_normalised [where r = \<open>\<lparr> status = 201, responseText = ''{"id":7}'', locationHeader = Some ''/items/7'' \<rparr>\<close>
      and w = \<open>world0 \<lparr> status = 201, responseText = ''{"id":7}'', locationHeader = Some ''/items/7'' \<rparr>\<close>
      and e = \<open>env0 (map_of [(''{"id":7}'', Obj PlainObject [(''id'', Num 7)])])\<close>
      and kd = PlainObject and ps = \<open>[(''id'', Num 7)]\<close> and l = \<open>''/items/7''\<close>
      and m = POST and u = "''/items''" and d = Undefined]
    success_normalised [where r = \<open>\<lparr> status = 201, responseText = ''7'', locationHeader = Some ''/items/7'' \<rparr>\<close>
      and w = \<open>world0 \<lparr> status = 201, responseText = ''7'', locationHeader = Some ''/items/7'' \<rparr>\<close>
      and e = \<open>env0 (map_of [(''7'', Num 7)])\<close>
      and v = \<open>Num 7\<close> and l = \<open>''/items/7''\<close>
      and m = POST and u = "''/items''" and d = Undefined]
  by (simp add: world0_def env0_def)

text \<open>
  C3 as stated fails: the body \<^verbatim>\<open>null\<close> parses to \<^verbatim>\<open>null\<close>, and with a
  \<^verbatim>\<open>Location\<close> header the future resolves with the text \<^verbatim>\<open>"null"\<close>, not with the
  parsed body; and a status 200 with the body \<^verbatim>\<open>{"id":7}\<close>, sent with a navigation
  handle, fulfils the returned future with \<^verbatim>\<open>undefined\<close>, not with the parsed object.
\<close>

theorem success_nonobject_counterexample:
  \<open>JSON_parse (env0 (map_of [(''null'', Null)])) ''null'' = Some Null \<and>
   fst (run (JsonApi (env0 (map_of [(''null'', Null)])) GET ''/items'' Undefined False
             (world0 \<lparr> status = 200, responseText = ''null'',
                       locationHeader = Some ''/items/7'' \<rparr>))) =
     Fulfilled (Str ''null'') \<and>
   fst (run (JsonApi (env0 (map_of [(''null'', Null)])) GET ''/items'' Undefined False
             (world0 \<lparr> status = 200, responseText = ''null'',
                       locationHeader = Some ''/items/7'' \<rparr>))) \<noteq>
     Fulfilled Null \<and>
   JSON_parse (env0 (map_of [(''{"id":7}'', Obj PlainObject [(''id'', Num 7)])])) ''{"id":7}'' =
     Some (Obj PlainObject [(''id'', Num 7)]) \<and>
   fst (run (JsonApi (env0 (map_of [(''{"id":7}'', Obj PlainObject [(''id'', Num 7)])]))
             GET ''/items'' Undefined True
             (world0 \<lparr> status = 200, responseText = ''{"id":7}'', locationHeader = None \<rparr>))) =
     Fulfilled Undefined\<close>
proof -
  let ?r = \<open>\<lparr> status = 200, responseText = ''{"id":7}'', locationHeader = None \<rparr>\<close>
  have resp: "responses (world0 ?r) (length (requests (world0 ?r))) = Some ?r"
    by (simp add: world0_def)
  have routed: \<open>fst (run (JsonApi (env0 (map_of [(''{"id":7}'', Obj PlainObject [(''id'', Num 7)])]))
             GET ''/items'' Undefined True (world0 ?r))) = Fulfilled Undefined\<close>
    unfolding routed_success_run [OF resp, simplified]
    by (simp add: env0_def doSuccess_def route_success_def get_prop_def)
  then show ?thesis
    by (simp add: JsonApi_plain_run world0_def env0_def xhr_onload_def doSuccess_def)
qed

section \<open>The request a GET call issues\<close>

lemma serializeUri_loop_pushes:
  "serializeUri_loop params ps =
     params @ map (\<lambda>(k, v). k @ ''='' @ encodeURIComponent v)
                (filter (\<lambda>(k, v). v \<noteq> Undefined \<and> v \<noteq> Null) ps)"
  by (induction ps arbitrary: params) auto

lemma JsonApi_requests:
  "requests (snd (JsonApi e m u d rw w)) =
     requests w @ [if m = GET then api_get (JSON_parse e) u d else api_other (JSON_parse e) m u d]"
  by (simp add: JsonApi_sent)

text \<open>
  C4. For a GET call with a data object, the query string is the \<^verbatim>\<open>key=value\<close> pairs of
  exactly the own keys whose value is neither \<^verbatim>\<open>null\<close> nor \<^verbatim>\<open>undefined\<close>, in order,
  each value URL-encoded, joined by \<^verbatim>\<open>&\<close>; it is appended to the URL of the request
  after \<^verbatim>\<open>?\<close>; and \<^verbatim>\<open>{a:1, b:null, c:undefined}\<close> gives the suffix \<^verbatim>\<open>?a=1\<close>.
\<close>

theorem query_string:
  "serializeUri (Obj kd ps) =
     join ''&'' (map (\<lambda>(k, v). k @ ''='' @ encodeURIComponent v)
                  (filter (\<lambda>(k, v). v \<noteq> Undefined \<and> v \<noteq> Null) ps)) \<and>
   map url (requests (snd (JsonApi e GET u (Obj kd ps) rw w))) =
     map url (requests w) @ [u @ ''?'' @ serializeUri (Obj kd ps)] \<and>
   map url (requests (snd (JsonApi e GET u
       (Obj PlainObject [(''a'', Num 1), (''b'', Null), (''c'', Undefined)]) rw w))) =
     map url (requests w) @ [u @ ''?a=1'']"
proof -
  have ex: "serializeUri (Obj PlainObject [(''a'', Num 1), (''b'', Null), (''c'', Undefined)]) =
      ''a=1''"
    by code_simp
  have req: "map url (requests (snd (JsonApi e GET u (Obj k p) rw w))) =
      map url (requests w) @ [u @ ''?'' @ serializeUri (Obj k p)]" for k p
    by (simp add: JsonApi_requests api_get_def send_def)
  show ?thesis
    using req [of kd ps] req [of PlainObject "[(''a'', Num 1), (''b'', Null), (''c'', Undefined)]"]
    by (simp add: ex) (simp add: serializeUri_def serializeUri_loop_pushes)
qed

text \<open>
  C8, as amended. A GET call never passes the caller's data to \<^verbatim>\<open>xhr.send\<close>: whatever
  the data, the argument of \<^verbatim>\<open>xhr.send\<close> is the JSON text \<^verbatim>\<open>{}\<close> of the empty object
  that \<^verbatim>\<open>get\<close> hands to \<^verbatim>\<open>send\<close>, and the query parameters appear in the URL only.
\<close>

theorem get_body_constant:
  "map body (requests (snd (JsonApi e GET u d rw w))) = map body (requests w) @ [Str ''{}''] \<and>
   map url (requests (snd (JsonApi e GET u d rw w))) =
     map url (requests w) @ [if truthy d then u @ ''?'' @ serializeUri d else u]"
  by (simp add: JsonApi_requests api_get_def send_def js_and_def JSON_stringify_def)

text \<open>
  C8 as stated fails: the request of a GET call is sent with the body \<^verbatim>\<open>"{}"\<close>, not
  without a body.
\<close>

theorem get_body_counterexample:
  \<open>map body (requests (snd (JsonApi (env0 (map_of [])) GET ''/items''
       (Obj PlainObject [(''a'', Num 1)]) False
       (world0 \<lparr> status = 200, responseText = ''[]'', locationHeader = None \<rparr>)))) =
     [Str ''{}''] \<and>
   map body (requests (snd (JsonApi (env0 (map_of [])) GET ''/items''
       (Obj PlainObject [(''a'', Num 1)]) False
       (world0 \<lparr> status = 200, responseText = ''[]'', locationHeader = None \<rparr>)))) \<noteq>
     [Undefined]\<close>
  by (simp add: JsonApi_requests api_get_def send_def js_and_def JSON_stringify_def world0_def)

section \<open>Calls with a navigation handle\<close>

text \<open>
  C9, as amended. When a request fails with the message \<open>msg\<close>, a call without a
  navigation handle rejects its future with \<open>msg\<close>; a call with one replaces the
  navigation state by \<^verbatim>\<open>{errorMessage: msg}\<close> and fulfils its future with
  \<^verbatim>\<open>undefined\<close>, so that a \<^verbatim>\<open>catch\<close> handler of the caller is not run and a
  \<^verbatim>\<open>then\<close> handler is run with \<^verbatim>\<open>undefined\<close>. And for every call with a navigation
  handle, in every world and however its request completes, the future is never
  fulfilled with anything but \<^verbatim>\<open>undefined\<close>.
\<close>

theorem routed_outcome_consumed:
  "(responses w (length (requests w)) = Some r \<and> \<not> (200 \<le> status r \<and> status r < 300) \<and>
    msg = (if status r = 0 then Str ''Could not reach the server''
           else doError (JSON_parse e) (responseText r)) \<longrightarrow>
      run (JsonApi e m u d False w) = (Rejected (Val msg), snd (JsonApi e m u d False w)) \<and>
      run (JsonApi e m u d True w) =
        (Fulfilled Undefined,
         (snd (JsonApi e m u d True w))
           \<lparr> navigation := navigation w @ [Replace (location w) (ErrorMessage (Val msg))] \<rparr>) \<and>
      run (cp_catch (fst (JsonApi e m u d True w)) (Some h), snd (JsonApi e m u d True w)) =
        run (JsonApi e m u d True w) \<and>
      run (cp_then (fst (JsonApi e m u d True w)) (Some f) g, snd (JsonApi e m u d True w)) =
        f Undefined (snd (run (JsonApi e m u d True w)))) \<and>
   (fst (run (JsonApi e m u d True w)) = Fulfilled x \<longrightarrow> x = Undefined)"
proof -
  have failure:
    "run (JsonApi e m u d False w) = (Rejected (Val msg), snd (JsonApi e m u d False w)) \<and>
     run (JsonApi e m u d True w) =
       (Fulfilled Undefined,
        (snd (JsonApi e m u d True w))
          \<lparr> navigation := navigation w @ [Replace (location w) (ErrorMessage (Val msg))] \<rparr>) \<and>
     run (cp_catch (fst (JsonApi e m u d True w)) (Some h), snd (JsonApi e m u d True w)) =
       run (JsonApi e m u d True w) \<and>
     run (cp_then (fst (JsonApi e m u d True w)) (Some f) g, snd (JsonApi e m u d True w)) =
       f Undefined (snd (run (JsonApi e m u d True w)))"
    if resp: "responses w (length (requests w)) = Some r"
      and st: "\<not> (200 \<le> status r \<and> status r < 300)"
      and msg: "msg = (if status r = 0 then Str ''Could not reach the server''
                       else doError (JSON_parse e) (responseText r))"
  proof -
    have plain: "run (JsonApi e m u d False w) =
        (Rejected (Val msg), snd (JsonApi e m u d False w))"
      using failure_run [OF resp st, of e m u d False] msg by simp
    have routed: "run (JsonApi e m u d True w) =
        (Fulfilled Undefined,
         (snd (JsonApi e m u d True w))
           \<lparr> navigation := navigation w @ [Replace (location w) (ErrorMessage (Val msg))] \<rparr>)"
      using failure_run [OF resp st, of e m u d True] msg by simp
    from routed have pair: "run (fst (JsonApi e m u d True w), snd (JsonApi e m u d True w)) =
        (Fulfilled Undefined,
         (snd (JsonApi e m u d True w))
           \<lparr> navigation := navigation w @ [Replace (location w) (ErrorMessage (Val msg))] \<rparr>)"
      by simp
    show ?thesis
      using plain routed run_catch_fulfilled [OF pair, of h] run_then_fulfilled [OF pair, of f g]
      by simp
  qed
  have undef: "x = Undefined" if "fst (run (JsonApi e m u d True w)) = Fulfilled x"
    using that by (rule routed_fulfilled_undefined)
  from failure undef show ?thesis by blast
qed

text \<open>A status 500 with the body \<^verbatim>\<open>oops\<close>, sent with and without a navigation handle.\<close>

theorem routed_outcome_consumed_witness:
  \<open>fst (run (JsonApi (env0 (map_of [])) GET ''/items'' Undefined True
             (world0 \<lparr> status = 500, responseText = ''oops'', locationHeader = None \<rparr>))) =
     Fulfilled Undefined \<and>
   navigation (snd (run (JsonApi (env0 (map_of [])) GET ''/items'' Undefined True
             (world0 \<lparr> status = 500, responseText = ''oops'', locationHeader = None \<rparr>)))) =
     [Replace [] (ErrorMessage (Val (Str ''oops'')))] \<and>
   fst (run (JsonApi (env0 (map_of [])) GET ''/items'' Undefined False
             (world0 \<lparr> status = 500, responseText = ''oops'', locationHeader = None \<rparr>))) =
     Rejected (Val (Str ''oops''))\<close>
  using routed_outcome_consumed
    [where r = \<open>\<lparr> status = 500, responseText = ''oops'', locationHeader = None \<rparr>\<close>
      and w = \<open>world0 \<lparr> status = 500, responseText = ''oops'', locationHeader = None \<rparr>\<close>
      and e = \<open>env0 (map_of [])\<close> and m = GET and u = "''/items''" and d = Undefined
      and msg = \<open>Str ''oops''\<close> and x = Undefined]
  by (simp add: world0_def env0_def doError_def js_or_def)

text \<open>
  C9 as stated fails: after the same failure a \<^verbatim>\<open>catch\<close> handler attached by the
  caller runs when no navigation handle was given, and does not run when one was: the
  future is fulfilled with \<^verbatim>\<open>undefined\<close> and no hook call is recorded.
\<close>

theorem routed_failure_counterexample:
  \<open>fst (run (cp_catch (fst (JsonApi (env0 (map_of [])) GET ''/items'' Undefined False
            (world0 \<lparr> status = 500, responseText = ''oops'', locationHeader = None \<rparr>)))
          (Some record_rejection),
        snd (JsonApi (env0 (map_of [])) GET ''/items'' Undefined False
            (world0 \<lparr> status = 500, responseText = ''oops'', locationHeader = None \<rparr>)))) =
     Fulfilled (Str ''caught'') \<and>
   fst (run (JsonApi (env0 (map_of [])) GET ''/items'' Undefined True
            (world0 \<lparr> status = 500, responseText = ''oops'', locationHeader = None \<rparr>))) =
     Fulfilled Undefined \<and>
   fst (run (cp_catch (fst (JsonApi (env0 (map_of [])) GET ''/items'' Undefined True
            (world0 \<lparr> status = 500, responseText = ''oops'', locationHeader = None \<rparr>)))
          (Some record_rejection),
        snd (JsonApi (env0 (map_of [])) GET ''/items'' Undefined True
            (world0 \<lparr> status = 500, responseText = ''oops'', locationHeader = None \<rparr>)))) =
     Fulfilled Undefined \<and>
   calls (snd (run (cp_catch (fst (JsonApi (env0 (map_of [])) GET ''/items'' Undefined True
            (world0 \<lparr> status = 500, responseText = ''oops'', locationHeader = None \<rparr>)))
          (Some record_rejection),
        snd (JsonApi (env0 (map_of [])) GET ''/items'' Undefined True
            (world0 \<lparr> status = 500, responseText = ''oops'', locationHeader = None \<rparr>))))) = []\<close>
proof -
  let ?r = "\<lparr> status = 500, responseText = ''oops'', locationHeader = None \<rparr>"
  let ?e = "env0 (map_of [])"
  have resp: "responses (world0 ?r) (length (requests (world0 ?r))) = Some ?r"
    by (simp add: world0_def)
  have st: "\<not> (200 \<le> status ?r \<and> status ?r < 300)" by simp
  have plain: "run (fst (JsonApi ?e GET ''/items'' Undefined False (world0 ?r)),
                    snd (JsonApi ?e GET ''/items'' Undefined False (world0 ?r))) =
      (Rejected (Val (Str ''oops'')), snd (JsonApi ?e GET ''/items'' Undefined False (world0 ?r)))"
    using failure_run [OF resp st, of ?e GET "''/items''" Undefined False]
    by (simp add: env0_def doError_def js_or_def)
  have routed: "run (fst (JsonApi ?e GET ''/items'' Undefined True (world0 ?r)),
                     snd (JsonApi ?e GET ''/items'' Undefined True (world0 ?r))) =
      (Fulfilled Undefined,
       (snd (JsonApi ?e GET ''/items'' Undefined True (world0 ?r)))
         \<lparr> navigation := navigation (world0 ?r) @
              [Replace (location (world0 ?r)) (ErrorMessage (Val (Str ''oops'')))] \<rparr>)"
    using failure_run [OF resp st, of ?e GET "''/items''" Undefined True]
    by (simp add: env0_def doError_def js_or_def)
  have calls0: "calls (snd (JsonApi ?e GET ''/items'' Undefined True (world0 ?r))) = []"
    by (simp add: JsonApi_sent world0_def)
  show ?thesis
    using run_catch_rejected [OF plain, of record_rejection]
      run_catch_fulfilled [OF routed, of record_rejection] routed calls0
    by (simp add: record_rejection_def)
qed

section \<open>The loader component\<close>

lemma load_sent:
  assumes "load e apiUrl opts tp props w = Inr Fw"
  shows "\<exists>cu. snd Fw = w\<lparr> requests := requests w @
                   [api_get (JSON_parse e) cu (the_getApiQuery opts props)] \<rparr> \<and>
               fst Fw =
                 (let p = cp_then (makeCancellablePromise (request_promise (length (requests w)))
                                     (onCancel (Some (length (requests w)))))
                            (Some (load_success opts)) (Some (load_failure (onError props)))
                  in case onLoad tp of
                       Some h \<Rightarrow> cp_then p (Some (call_onLoad h)) None
                     | None \<Rightarrow> p)"
  using assms
  by (auto simp: load_def JsonApi_get_def wrap_sent Let_def split: sum.splits)



lemma load_run_fulfilled:
  assumes "load e apiUrl opts tp props w = Inr Fw"
    and "request_promise (length (requests w)) (snd Fw) = (Fulfilled v, snd Fw)"
  shows "run Fw =
     (case load_success opts v (snd Fw) of
        (Fulfilled x, w2) \<Rightarrow>
          (case onLoad tp of Some h \<Rightarrow> call_onLoad h x w2 | None \<Rightarrow> (Fulfilled x, w2))
      | (Rejected x, w2) \<Rightarrow> (Rejected x, w2)
      | (Pending, w2) \<Rightarrow> (Pending, w2))"
proof -
  from load_sent [OF assms(1)] have
    F: "fst Fw =
         (let p = cp_then (makeCancellablePromise (request_promise (length (requests w)))
                             (onCancel (Some (length (requests w)))))
                    (Some (load_success opts)) (Some (load_failure (onError props)))
          in case onLoad tp of
               Some h \<Rightarrow> cp_then p (Some (call_onLoad h)) None
             | None \<Rightarrow> p)"
    by blast
  show ?thesis
    using assms(2)
    by (simp add: run_def F Let_def cp_then_def makeCancellablePromise_def then_p_def
        split: option.splits prod.splits outcome.splits)
qed

lemma load_world:
  assumes "load e apiUrl opts tp props w = Inr Fw"
  shows "calls (snd Fw) = calls w \<and> state (snd Fw) = state w"
  using load_sent [OF assms] by auto

lemma call_onLoad_world:
  "state (snd (call_onLoad h x w)) = state w \<and>
   calls (snd (call_onLoad h x w)) = calls w @ [OnLoadCall x]"
  by (simp add: call_onLoad_def Let_def split: sum.splits)

lemma falsy_values:
  "\<not> truthy dv \<longleftrightarrow> dv \<in> {Undefined, Null, Bool False, Num 0, NaN, Str []}"
  by (cases dv) auto

lemma load_env0:
  "load (env0 parse) apiUrl opts tp props w =
     Inr (projr (load (env0 parse) apiUrl opts tp props w))"
  by (simp add: load_def env0_def Let_def split: prod.splits)

lemma load_env0_world:
  "snd (projr (load (env0 parse) apiUrl opts tp props w)) =
     w\<lparr> requests := requests w @ [api_get parse apiUrl (the_getApiQuery opts props)] \<rparr>"
  by (simp add: load_def env0_def Let_def JsonApi_get_def wrap_sent split: prod.splits)

lemma load_env0_request:
  assumes "responses w (length (requests w)) = Some r"
  shows "request_promise (length (requests w))
     (snd (projr (load (env0 parse) apiUrl opts tp props w))) =
     (case (if status r = 0 then Fail (Str ''Could not reach the server'') else xhr_onload parse r) of
        Success v \<Rightarrow> Fulfilled v
      | Fail x \<Rightarrow> Rejected (Val x),
      snd (projr (load (env0 parse) apiUrl opts tp props w)))"
proof -
  let ?x = "api_get parse apiUrl (the_getApiQuery opts props)"
  have s: "settled ?x = None" by (simp add: api_get_def send_def Let_def)
  have d: "dispatch ?x r =
      (if status r = 0 then Some (Fail (Str ''Could not reach the server''))
       else Some (xhr_onload parse r))"
    by (simp add: api_get_def dispatch_send)
  show ?thesis
    unfolding load_env0_world request_promise_fresh [OF assms s] d
    by (simp split: settle.splits)
qed

lemma world0_fields:
  "requests (world0 r) = []" "calls (world0 r) = []"
  "state (world0 r) = \<lparr> data = Undefined, errorStatus = Val Undefined \<rparr>"
  "responses (world0 r) a = Some r"
  by (simp_all add: world0_def)

lemma props0_fields:
  "onError (props0 oe ol) = oe" "onLoad (props0 oe ol) = ol"
  "passthru (props0 oe ol) = []"
  "the_getApiQuery (options0 b) (props0 oe ol) = Obj PlainObject [(''id'', Num 1)]"
  "renderOnEmptyResult (options0 b) = b"
  "the_serverAdapter (options0 b) v = Inr v"
  by (simp_all add: props0_def options0_def the_getApiQuery_def the_serverAdapter_def)

lemma load_sample:
  "load (env0 parse) apiUrl (options0 b) tp (props0 oe ol) (world0 r) =
     Inr (projr (load (env0 parse) apiUrl (options0 b) tp (props0 oe ol) (world0 r)))"
  by (rule load_env0)

lemma load_sample_request:
  "request_promise (length (requests (world0 r)))
     (snd (projr (load (env0 parse) apiUrl (options0 b) tp (props0 oe ol) (world0 r)))) =
     (case (if status r = 0 then Fail (Str ''Could not reach the server'') else xhr_onload parse r) of
        Success v \<Rightarrow> Fulfilled v
      | Fail x \<Rightarrow> Rejected (Val x),
      snd (projr (load (env0 parse) apiUrl (options0 b) tp (props0 oe ol) (world0 r))))"
  by (rule load_env0_request) (rule world0_fields)


text \<open>
  C5, as amended. When the request of the loader succeeds and \<^verbatim>\<open>serverAdapter\<close> (the
  identity when none is configured) turns its payload into an array of length zero, that
  array is stored as the data and the rest of the state, \<^verbatim>\<open>errorStatus\<close> included, is
  left as it was. When \<^verbatim>\<open>renderOnEmptyResult\<close> is not set, \<^verbatim>\<open>render\<close> returns the
  error placeholder for \<^verbatim>\<open>"No results"\<close>. When it is set, \<^verbatim>\<open>render\<close> returns the
  element of the wrapped component, built from the empty array, the computed query and
  the passthrough properties; the \<^verbatim>\<open>data\<close> property the component receives is the
  passthrough property named \<^verbatim>\<open>data\<close> if there is one, else the query's, else the
  empty array: it is the empty array when neither has a property named \<^verbatim>\<open>data\<close>.
\<close>

theorem empty_result:
  assumes "load e apiUrl opts this_props props w = Inr Fw"
    and "request_promise (length (requests w)) (snd Fw) = (Fulfilled v, snd Fw)"
    and "the_serverAdapter opts v = Inr (Obj (ArrayObject 0) ps)"
  shows "state (snd (run Fw)) = (state w)\<lparr> data := Obj (ArrayObject 0) ps \<rparr> \<and>
         (\<not> renderOnEmptyResult opts \<longrightarrow>
            render opts props' (state (snd (run Fw))) = ErrorElement (Val (Str ''No results''))) \<and>
         (renderOnEmptyResult opts \<longrightarrow>
            render opts props' (state (snd (run Fw))) =
              DisplayElement (Obj (ArrayObject 0) ps)
                (own_props (the_getApiQuery opts props')) (passthru props') \<and>
            display_data (render opts props' (state (snd (run Fw)))) =
              Some (case map_of (passthru props') ''data'' of
                      Some x \<Rightarrow> x
                    | None \<Rightarrow>
                        (case map_of (own_props (the_getApiQuery opts props')) ''data'' of
                           Some x \<Rightarrow> x
                         | None \<Rightarrow> Obj (ArrayObject 0) ps)) \<and>
            (map_of (passthru props') ''data'' = None \<and>
             map_of (own_props (the_getApiQuery opts props')) ''data'' = None \<longrightarrow>
               display_data (render opts props' (state (snd (run Fw)))) =
                 Some (Obj (ArrayObject 0) ps)))"
proof -
  have ls: "load_success opts v (snd Fw) =
      (Fulfilled Undefined,
       (snd Fw)\<lparr> state := (state (snd Fw))\<lparr> data := Obj (ArrayObject 0) ps \<rparr> \<rparr>)"
    using assms(3) by (simp add: load_success_def)
  have st: "state (snd (run Fw)) = (state w)\<lparr> data := Obj (ArrayObject 0) ps \<rparr>"
    unfolding load_run_fulfilled [OF assms(1,2)] ls
    using load_world [OF assms(1)]
    by (cases "onLoad this_props") (simp_all add: call_onLoad_world)
  show ?thesis
    by (simp add: st render_def)
qed

text \<open>The response \<^verbatim>\<open>[]\<close> without and with \<^verbatim>\<open>renderOnEmptyResult\<close>.\<close>

theorem empty_result_witness:
  \<open>render (options0 False) (props0 None None)
     (state (snd (run (projr (load (env0 (map_of [(''[]'', Obj (ArrayObject 0) [])]))
        ''/api/items'' (options0 False) (props0 None None) (props0 None None)
        (world0 \<lparr> status = 200, responseText = ''[]'', locationHeader = None \<rparr>)))))) =
     ErrorElement (Val (Str ''No results'')) \<and>
   render (options0 True) (props0 None None)
     (state (snd (run (projr (load (env0 (map_of [(''[]'', Obj (ArrayObject 0) [])]))
        ''/api/items'' (options0 True) (props0 None None) (props0 None None)
        (world0 \<lparr> status = 200, responseText = ''[]'', locationHeader = None \<rparr>)))))) =
     DisplayElement (Obj (ArrayObject 0) []) [(''id'', Num 1)] [] \<and>
   display_data (render (options0 True) (props0 None None)
     (state (snd (run (projr (load (env0 (map_of [(''[]'', Obj (ArrayObject 0) [])]))
        ''/api/items'' (options0 True) (props0 None None) (props0 None None)
        (world0 \<lparr> status = 200, responseText = ''[]'', locationHeader = None \<rparr>))))))) =
     Some (Obj (ArrayObject 0) [])\<close>
proof -
  let ?r = "\<lparr> status = 200, responseText = ''[]'', locationHeader = None \<rparr>"
  let ?e = "env0 (map_of [(''[]'', Obj (ArrayObject 0) [])])"
  let ?p = "props0 None None"
  let ?Fw = "\<lambda>b. projr (load ?e ''/api/items'' (options0 b) ?p ?p (world0 ?r))"
  have ful: "request_promise (length (requests (world0 ?r))) (snd (?Fw b)) =
     (Fulfilled (Obj (ArrayObject 0) []), snd (?Fw b))" for b
    by (simp add: load_sample_request xhr_onload_def doSuccess_def)
  note t = empty_result [where e = ?e and apiUrl = "''/api/items''" and this_props = ?p
      and props = ?p and w = "world0 ?r" and v = "Obj (ArrayObject 0) []" and props' = ?p,
      OF load_sample ful props0_fields(6)]
  show ?thesis
    using t [of False, THEN conjunct2] t [of True, THEN conjunct2]
    by (simp add: props0_fields)
qed

text \<open>
  C5 as stated fails: with the adapter \<^verbatim>\<open>data => ({dataWrapper: data})\<close> and without
  \<^verbatim>\<open>renderOnEmptyResult\<close>, the response \<^verbatim>\<open>[]\<close> renders the wrapped component, not
  the error placeholder; and with \<^verbatim>\<open>renderOnEmptyResult\<close> and a passthrough property
  \<^verbatim>\<open>data="mine"\<close>, the component receives \<^verbatim>\<open>"mine"\<close> as its data, not the empty
  array.
\<close>

theorem empty_result_counterexample:
  \<open>render ((options0 False)\<lparr> serverAdapter := Some dataWrapper \<rparr>) (props0 None None)
     (state (snd (run (projr (load (env0 (map_of [(''[]'', Obj (ArrayObject 0) [])]))
        ''/api/items'' ((options0 False)\<lparr> serverAdapter := Some dataWrapper \<rparr>)
        (props0 None None) (props0 None None)
        (world0 \<lparr> status = 200, responseText = ''[]'', locationHeader = None \<rparr>)))))) =
     DisplayElement (Obj PlainObject [(''dataWrapper'', Obj (ArrayObject 0) [])])
       [(''id'', Num 1)] [] \<and>
   display_data (render (options0 True) ((props0 None None)\<lparr> passthru := [(''data'', Str ''mine'')] \<rparr>)
     (state (snd (run (projr (load (env0 (map_of [(''[]'', Obj (ArrayObject 0) [])]))
        ''/api/items'' (options0 True)
        ((props0 None None)\<lparr> passthru := [(''data'', Str ''mine'')] \<rparr>)
        ((props0 None None)\<lparr> passthru := [(''data'', Str ''mine'')] \<rparr>)
        (world0 \<lparr> status = 200, responseText = ''[]'', locationHeader = None \<rparr>))))))) =
     Some (Str ''mine'')\<close>
proof -
  let ?r = "\<lparr> status = 200, responseText = ''[]'', locationHeader = None \<rparr>"
  let ?e = "env0 (map_of [(''[]'', Obj (ArrayObject 0) [])])"
  let ?o = "(options0 False)\<lparr> serverAdapter := Some dataWrapper \<rparr>"
  let ?p = "props0 None None"
  let ?q = "(props0 None None)\<lparr> passthru := [(''data'', Str ''mine'')] \<rparr>"
  have resp: "responses (world0 ?r) (length (requests (world0 ?r))) = Some ?r"
    by (simp add: world0_def)
  have ful: "request_promise (length (requests (world0 ?r)))
       (snd (projr (load ?e ''/api/items'' opts tp props (world0 ?r)))) =
     (Fulfilled (Obj (ArrayObject 0) []),
      snd (projr (load ?e ''/api/items'' opts tp props (world0 ?r))))" for opts tp props
    by (subst load_env0_request [OF resp]) (simp add: xhr_onload_def doSuccess_def)
  have s1: "state (snd (run (projr (load ?e ''/api/items'' ?o ?p ?p (world0 ?r))))) =
      (state (world0 ?r))\<lparr> data := Obj PlainObject [(''dataWrapper'', Obj (ArrayObject 0) [])] \<rparr>"
    unfolding load_run_fulfilled [OF load_env0 ful]
    by (simp add: load_success_def the_serverAdapter_def options0_def dataWrapper_def
        props0_def load_env0_world)
  have s2: "state (snd (run (projr (load ?e ''/api/items'' (options0 True) ?q ?q (world0 ?r))))) =
      (state (world0 ?r))\<lparr> data := Obj (ArrayObject 0) [] \<rparr>"
    unfolding load_run_fulfilled [OF load_env0 ful]
    by (simp add: load_success_def the_serverAdapter_def options0_def props0_def load_env0_world)
  show ?thesis
    unfolding s1 s2
    by (simp add: render_def the_getApiQuery_def options0_def props0_def world0_def)
qed




text \<open>
  C10. When the request of the loader succeeds and the stored payload is falsy
  (\<^verbatim>\<open>null\<close>, \<^verbatim>\<open>0\<close>, \<^verbatim>\<open>""\<close>, \<^verbatim>\<open>false\<close>, \<^verbatim>\<open>NaN\<close>; see \<open>falsy_values\<close>),
  \<^verbatim>\<open>render\<close> does not return the element of the wrapped component: it returns the
  error placeholder of an error status recorded earlier, if there is one, and the loading
  placeholder otherwise.
\<close>

theorem falsy_payload:
  assumes "load e apiUrl opts this_props props w = Inr Fw"
    and "request_promise (length (requests w)) (snd Fw) = (Fulfilled v, snd Fw)"
    and "the_serverAdapter opts v = Inr dv" and "\<not> truthy dv"
  shows "data (state (snd (run Fw))) = dv \<and>
         render opts props' (state (snd (run Fw))) =
           (if truthy_reason (errorStatus (state w)) then ErrorElement (errorStatus (state w))
            else LoaderElement) \<and>
         render opts props' (state (snd (run Fw))) \<noteq> DisplayElement x y z"
proof -
  have ls: "load_success opts v (snd Fw) =
      (Fulfilled Undefined, (snd Fw)\<lparr> state := (state (snd Fw))\<lparr> data := dv \<rparr> \<rparr>)"
    using assms(3) by (simp add: load_success_def)
  have st: "state (snd (run Fw)) = (state w)\<lparr> data := dv \<rparr>"
    unfolding load_run_fulfilled [OF assms(1,2)] ls
    using load_world [OF assms(1)]
    by (cases "onLoad this_props") (simp_all add: call_onLoad_world)
  show ?thesis
    using assms(4) by (simp add: st render_def)
qed

text \<open>The responses \<^verbatim>\<open>null\<close> and \<^verbatim>\<open>0\<close> on a fresh component.\<close>

theorem falsy_payload_witness:
  \<open>render (options0 False) (props0 None None)
     (state (snd (run (projr (load (env0 (map_of [(''null'', Null)]))
        ''/api/items'' (options0 False) (props0 None None) (props0 None None)
        (world0 \<lparr> status = 200, responseText = ''null'', locationHeader = None \<rparr>)))))) =
     LoaderElement \<and>
   render (options0 False) (props0 None None)
     (state (snd (run (projr (load (env0 (map_of [(''0'', Num 0)]))
        ''/api/items'' (options0 False) (props0 None None) (props0 None None)
        (world0 \<lparr> status = 200, responseText = ''0'', locationHeader = None \<rparr>)))))) =
     LoaderElement\<close>
proof -
  let ?r = "\<lparr> status = 200, responseText = ''null'', locationHeader = None \<rparr>"
  let ?e = "env0 (map_of [(''null'', Null)])"
  let ?r' = "\<lparr> status = 200, responseText = ''0'', locationHeader = None \<rparr>"
  let ?e' = "env0 (map_of [(''0'', Num 0)])"
  have ful: "request_promise (length (requests (world0 ?r)))
       (snd (projr (load ?e ''/api/items'' (options0 b) tp (props0 oe ol) (world0 ?r)))) =
     (Fulfilled Null,
      snd (projr (load ?e ''/api/items'' (options0 b) tp (props0 oe ol) (world0 ?r))))"
    for b tp oe ol
    by (simp add: load_sample_request xhr_onload_def doSuccess_def)
  have ful': "request_promise (length (requests (world0 ?r')))
       (snd (projr (load ?e' ''/api/items'' (options0 b) tp (props0 oe ol) (world0 ?r')))) =
     (Fulfilled (Num 0),
      snd (projr (load ?e' ''/api/items'' (options0 b) tp (props0 oe ol) (world0 ?r'))))"
    for b tp oe ol
    by (simp add: load_sample_request xhr_onload_def doSuccess_def)
  have f1: "\<not> truthy Null" and f2: "\<not> truthy (Num 0)" by simp_all
  let ?p = "props0 None None"
  have t: "data (state (snd (run (projr (load ?e ''/api/items'' (options0 False) ?p ?p (world0 ?r)))))) =
       Null \<and>
     render (options0 False) ?p
       (state (snd (run (projr (load ?e ''/api/items'' (options0 False) ?p ?p (world0 ?r)))))) =
       (if truthy_reason (errorStatus (state (world0 ?r)))
        then ErrorElement (errorStatus (state (world0 ?r))) else LoaderElement) \<and>
     render (options0 False) ?p
       (state (snd (run (projr (load ?e ''/api/items'' (options0 False) ?p ?p (world0 ?r)))))) \<noteq>
       DisplayElement Null [] []"
    by (rule falsy_payload [where e = ?e and apiUrl = "''/api/items''" and this_props = ?p
          and props = ?p and w = "world0 ?r" and v = Null])
      (rule load_sample, rule ful, rule props0_fields, rule f1)
  have t': "data (state (snd (run (projr (load ?e' ''/api/items'' (options0 False) ?p ?p (world0 ?r')))))) =
       Num 0 \<and>
     render (options0 False) ?p
       (state (snd (run (projr (load ?e' ''/api/items'' (options0 False) ?p ?p (world0 ?r')))))) =
       (if truthy_reason (errorStatus (state (world0 ?r')))
        then ErrorElement (errorStatus (state (world0 ?r'))) else LoaderElement) \<and>
     render (options0 False) ?p
       (state (snd (run (projr (load ?e' ''/api/items'' (options0 False) ?p ?p (world0 ?r')))))) \<noteq>
       DisplayElement Null [] []"
    by (rule falsy_payload [where e = ?e' and apiUrl = "''/api/items''" and this_props = ?p
          and props = ?p and w = "world0 ?r'" and v = "Num 0"])
      (rule load_sample, rule ful', rule props0_fields, rule f2)
  show ?thesis
    using t t' by (simp add: world0_fields)
qed

section \<open>deepCompare on query keys\<close>

text \<open>Two files without added properties are compared by name, size and type.\<close>

lemma deepCompare_files:
  "deepCompare (Obj (FileObject n sz ty) []) (Obj (FileObject n' sz' ty') []) \<longleftrightarrow>
     n = n' \<and> sz = sz' \<and> ty = ty'"
  by (simp add: getObjKeys_def)

text \<open>
  C7. \<^verbatim>\<open>deepCompare\<close> is not structural equality with \<^verbatim>\<open>NaN\<close> equal to itself at
  every depth: \<^verbatim>\<open>NaN\<close> equals \<^verbatim>\<open>NaN\<close> at the top, but \<^verbatim>\<open>{a: NaN}\<close> differs from
  \<^verbatim>\<open>{a: NaN}\<close>; and \<^verbatim>\<open>{a: undefined}\<close> equals \<^verbatim>\<open>{b: 1}\<close>, since only the number of
  keys is compared and the keys of the first operand are read from the second.
\<close>

theorem deepCompare_shallow:
  "deepCompare NaN NaN \<and>
   \<not> deepCompare (Obj PlainObject [(''a'', NaN)]) (Obj PlainObject [(''a'', NaN)]) \<and>
   deepCompare (Obj PlainObject [(''a'', Undefined)]) (Obj PlainObject [(''b'', Num 1)])"
  by (simp add: getObjKeys_def)

end
